theory Spec2Isabelle
  imports Complex_Main
begin

section \<open>SafeRoute: route characterization, weather context and recommendation engine\<close>

text \<open>
  A shallow embedding of the decision logic of the SafeRoute front end:
  \<^item> \<^verbatim>\<open>src/context/RouteContext.tsx\<close>: the route data model, \<^verbatim>\<open>analyzeRouteCharacteristics\<close>,
    \<^verbatim>\<open>fetchRoutes\<close> and \<^verbatim>\<open>clearAll\<close>;
  \<^item> \<^verbatim>\<open>src/context/WeatherContext.tsx\<close>: the weather data model, \<^verbatim>\<open>generateAlerts\<close>,
    \<^verbatim>\<open>fetchWeather\<close> and \<^verbatim>\<open>getRouteWeatherTags\<close>;
  \<^item> the \<^verbatim>\<open>RoutesList\<close> component: \<^verbatim>\<open>getSmartRecommendation\<close>, in its version that reads
    the weather context.

  Conventions of the embedding.
  \<^item> A JavaScript \<^verbatim>\<open>number\<close> is a \<^typ>\<open>real\<close>: arithmetic is exact, and the values
    \<^verbatim>\<open>NaN\<close> and \<^verbatim>\<open>Infinity\<close> are not represented.  The score is modelled a second time
    with every operation rounded to the nearest IEEE double (\<open>scoreDouble\<close>), for the
    property that depends on the rounding.
  \<^item> A string union type is a datatype with one constructor per literal.
  \<^item> \<^verbatim>\<open>T | null\<close> and optional fields are \<^typ>\<open>'a option\<close>.
  \<^item> A string is a list of bytes; a character outside ASCII is written as its UTF-8 bytes.
  \<^item> React state is a record; an operation that calls state setters is a function from
    the state before to the state after all its setters have been applied.
  \<^item> Field names are the source's; where two records share a name, or a name is taken in
    HOL, the later one carries a prefix (\<open>step_distance\<close>, \<open>h_temp\<close>, \<open>alert_title\<close>,
    \<open>route_id\<close>).
  \<^item> What the program reads from its environment (the clock, a provider's response) is
    an argument of the function that reads it.
\<close>

subsection \<open>Text constants\<close>

text \<open>The non-ASCII characters of the string literals, as UTF-8 bytes.\<close>

definition emoji_rain_cloud :: string where
  "emoji_rain_cloud = [CHR 0xF0, CHR 0x9F, CHR 0x8C, CHR 0xA7, CHR 0xEF, CHR 0xB8, CHR 0x8F]"

definition emoji_snowflake :: string where
  "emoji_snowflake = [CHR 0xE2, CHR 0x9D, CHR 0x84, CHR 0xEF, CHR 0xB8, CHR 0x8F]"

definition emoji_sun :: string where
  "emoji_sun = [CHR 0xE2, CHR 0x98, CHR 0x80, CHR 0xEF, CHR 0xB8, CHR 0x8F]"

definition emoji_cold_face :: string where
  "emoji_cold_face = [CHR 0xF0, CHR 0x9F, CHR 0xA5, CHR 0xB6]"

definition emoji_hot_face :: string where
  "emoji_hot_face = [CHR 0xF0, CHR 0x9F, CHR 0xA5, CHR 0xB5]"

definition emoji_wind :: string where
  "emoji_wind = [CHR 0xF0, CHR 0x9F, CHR 0x92, CHR 0xA8]"

definition emoji_moon :: string where
  "emoji_moon = [CHR 0xF0, CHR 0x9F, CHR 0x8C, CHR 0x99]"

definition emoji_walker :: string where
  "emoji_walker = [CHR 0xF0, CHR 0x9F, CHR 0x9A, CHR 0xB6]"

definition emoji_tree :: string where
  "emoji_tree = [CHR 0xF0, CHR 0x9F, CHR 0x8C, CHR 0xB3]"

definition emoji_warning :: string where
  "emoji_warning = [CHR 0xE2, CHR 0x9A, CHR 0xA0, CHR 0xEF, CHR 0xB8, CHR 0x8F]"

definition emoji_star :: string where
  "emoji_star = [CHR 0xE2, CHR 0x98, CHR 0x85]"

definition emoji_storm :: string where
  "emoji_storm = [CHR 0xE2, CHR 0x9B, CHR 0x88, CHR 0xEF, CHR 0xB8, CHR 0x8F]"

definition emoji_fog :: string where
  "emoji_fog = [CHR 0xF0, CHR 0x9F, CHR 0x8C, CHR 0xAB, CHR 0xEF, CHR 0xB8, CHR 0x8F]"

definition emoji_umbrella_rain :: string where
  "emoji_umbrella_rain = [CHR 0xE2, CHR 0x98, CHR 0x94]"

definition emoji_umbrella :: string where
  "emoji_umbrella = [CHR 0xE2, CHR 0x98, CHR 0x82, CHR 0xEF, CHR 0xB8, CHR 0x8F]"

definition emoji_house :: string where
  "emoji_house = [CHR 0xF0, CHR 0x9F, CHR 0x8F, CHR 0xA0]"

definition degree_sign :: string where
  "degree_sign = [CHR 0xC2, CHR 0xB0]"

definition em_dash :: string where
  "em_dash = [CHR 0xE2, CHR 0x80, CHR 0x94]"

definition e_acute :: string where
  "e_acute = [CHR 0xC3, CHR 0xA9]"

text \<open>Decimal digits of a natural number and of an integer, as a template literal prints
  them.\<close>

fun show_nat :: "nat \<Rightarrow> string" where
  "show_nat n =
     (if n < 10 then [''0123456789'' ! n]
      else show_nat (n div 10) @ [''0123456789'' ! (n mod 10)])"

declare show_nat.simps [simp del]

definition show_int :: "int \<Rightarrow> string" where
  "show_int i = (if i < 0 then ''-'' @ show_nat (nat (- i)) else show_nat (nat i))"

subsection \<open>Route data model (RouteContext.tsx)\<close>

datatype RouteType = Fastest | Safest | Comfortable | Scenic

datatype LightingLevel = WellLit | Mixed | Dark

datatype SidewalkCoverage = Continuous | Partial | NoSidewalks

datatype HillLevel = HillFlat | SomeHills | HillSteep

datatype Terrain = Flat | SlightIncline | Steep

datatype CrossingKind = Signal | Crosswalk | BusyRoad

datatype RestSpot = Bench | Cafe | Park

datatype TransportMode = DrivingTraffic | Walking | Cycling

record Coordinates =
  lng :: real
  lat :: real

record Location =
  name :: string
  address :: string
  coordinates :: Coordinates

record Maneuver =
  maneuver_type :: string
  modifier :: "string option"
  location :: "real \<times> real"

record StepComfort =
  step_lighting :: LightingLevel
  terrain :: Terrain
  step_shade :: bool
  crossing :: "CrossingKind option"
  restSpot :: "RestSpot option"

record RouteStep =
  instruction :: string
  step_distance :: real
  step_duration :: real
  maneuver :: Maneuver
  step_comfort :: "StepComfort option"

record Safety =
  lighting :: string
  lightingLevel :: LightingLevel
  crossings :: string
  crossingCount :: real
  sidewalks :: string
  sidewalkCoverage :: SidewalkCoverage
  busyRoads :: real

record Comfort =
  hills :: string
  hillLevel :: HillLevel
  shade :: string
  shadePercent :: real
  restSpots :: string
  restSpotCount :: real
  restSpotTypes :: "RestSpot list"

text \<open>\<^verbatim>\<open>RouteData\<close>; the fields \<^verbatim>\<open>id\<close> and \<^verbatim>\<open>type\<close> are \<open>route_id\<close> and \<open>route_type\<close>.
  The geometry is the coordinate list of the GeoJSON line string.\<close>

record RouteData =
  route_id :: string
  route_type :: RouteType
  title :: string
  distance :: real
  duration :: real
  geometry :: "(real \<times> real) list"
  steps :: "RouteStep list"
  tags :: "string list"
  nightFriendly :: bool
  safety :: Safety
  comfort :: Comfort

text \<open>The state held by \<^verbatim>\<open>RouteProvider\<close>: one field per \<^verbatim>\<open>useState\<close>.\<close>

record RouteState =
  origin :: "Location option"
  destination :: "Location option"
  routes :: "RouteData list"
  selectedRoute :: "RouteData option"
  transportMode :: TransportMode
  isLoading :: bool
  error :: "string option"

subsection \<open>clearAll\<close>

text \<open>
  \<^verbatim>\<open>
  const clearAll = useCallback(() => {
    setOrigin(null); setDestination(null); setRoutes([]);
    setSelectedRoute(null); setError(null);
  }, []);
  \<close>
\<close>

definition clearAll :: "RouteState \<Rightarrow> RouteState" where
  "clearAll s =
     s\<lparr>origin := None, destination := None, routes := [], selectedRoute := None,
       error := None\<rparr>"

subsection \<open>Route characterization (analyzeRouteCharacteristics)\<close>

text \<open>
  A route of the Directions response, as far as the program reads it: \<^verbatim>\<open>route.legs\<close>,
  \<^verbatim>\<open>route.distance\<close>, \<^verbatim>\<open>route.duration\<close>, \<^verbatim>\<open>route.geometry\<close>, and of each step its
  \<^verbatim>\<open>distance\<close>, \<^verbatim>\<open>duration\<close> and \<^verbatim>\<open>maneuver\<close>.
\<close>

record RawManeuver =
  raw_instruction :: string
  raw_type :: string
  raw_modifier :: "string option"
  raw_location :: "real \<times> real"

record RawStep =
  raw_distance :: real
  raw_duration :: real
  raw_maneuver :: RawManeuver

record RawLeg =
  leg_steps :: "RawStep list"

record RawRoute =
  legs :: "RawLeg list"
  route_distance :: real
  route_duration :: real
  route_geometry :: "(real \<times> real) list"

text \<open>\<^verbatim>\<open>route.legs[0]?.steps || []\<close>: the steps of the first leg, the empty list when there
  is no first leg.\<close>

definition firstLegSteps :: "RawRoute \<Rightarrow> RawStep list" where
  "firstLegSteps route = (case legs route of [] \<Rightarrow> [] | leg # _ \<Rightarrow> leg_steps leg)"

text \<open>
  \<^verbatim>\<open>
  const crossingCount = steps.filter((s: any) =>
    s.maneuver.type === 'turn' || s.maneuver.type === 'end of road').length;
  \<close>
\<close>

definition countCrossings :: "RawStep list \<Rightarrow> nat" where
  "countCrossings stepList =
     length (filter (\<lambda>s. raw_type (raw_maneuver s) = ''turn'' \<or>
                          raw_type (raw_maneuver s) = ''end of road'') stepList)"

text \<open>\<^verbatim>\<open>types[index % 4]\<close> with \<^verbatim>\<open>types = ['fastest', 'safest', 'comfortable', 'scenic']\<close>.\<close>

definition types :: "RouteType list" where
  "types = [Fastest, Safest, Comfortable, Scenic]"

definition typeOfIndex :: "nat \<Rightarrow> RouteType" where
  "typeOfIndex index = types ! (index mod 4)"

text \<open>The \<^verbatim>\<open>Partial<RouteData>\<close> that \<^verbatim>\<open>analyzeRouteCharacteristics\<close> returns: the four
  fields every entry of its table sets.\<close>

record Characteristics =
  c_tags :: "string list"
  c_nightFriendly :: bool
  c_safety :: Safety
  c_comfort :: Comfort

text \<open>
  The table \<^verbatim>\<open>characteristics\<close>, as a function of the crossing count (\<open>count\<close>) and of
  the key.
  \<^verbatim>\<open>Math.ceil(x)\<close> is the ceiling; \<^verbatim>\<open>Math.max(1, crossingCount - 1)\<close> is computed on
  integers, the count being one.
\<close>

fun characteristics :: "nat \<Rightarrow> RouteType \<Rightarrow> Characteristics" where
  "characteristics count Fastest =
     \<lparr>c_tags = [''Fastest'', ''Direct route''],
      c_nightFriendly = False,
      c_safety = \<lparr>
        lighting = ''Mixed lighting, some darker blocks'',
        lightingLevel = Mixed,
        crossings = show_nat count @ '' major intersections'',
        crossingCount = real count,
        sidewalks = ''Standard sidewalk coverage'',
        sidewalkCoverage = Partial,
        busyRoads = of_int \<lceil>real count / 2\<rceil>\<rparr>,
      c_comfort = \<lparr>
        hills = ''Direct route, may include hills'',
        hillLevel = SomeHills,
        shade = ''Limited shade (~30%)'',
        shadePercent = 30,
        restSpots = ''Few rest areas'',
        restSpotCount = 1,
        restSpotTypes = [Cafe]\<rparr>\<rparr>"
| "characteristics count Safest =
     \<lparr>c_tags = [''High safety'', ''Well lit'', ''Night friendly''],
      c_nightFriendly = True,
      c_safety = \<lparr>
        lighting = ''Well lit throughout'',
        lightingLevel = WellLit,
        crossings = show_int (max 1 (int count - 1)) @ '' signalized crosswalks'',
        crossingCount = of_int (max 1 (int count - 1)),
        sidewalks = ''Continuous sidewalks'',
        sidewalkCoverage = Continuous,
        busyRoads = of_int (max 0 \<lceil>real count / 3\<rceil>)\<rparr>,
      c_comfort = \<lparr>
        hills = ''Moderate terrain'',
        hillLevel = HillFlat,
        shade = ''About 60% shaded'',
        shadePercent = 60,
        restSpots = ''Multiple benches available'',
        restSpotCount = 3,
        restSpotTypes = [Bench, Cafe]\<rparr>\<rparr>"
| "characteristics count Comfortable =
     \<lparr>c_tags = [''High comfort'', ''Shaded'', ''Rest stops''],
      c_nightFriendly = True,
      c_safety = \<lparr>
        lighting = ''Well lit with good visibility'',
        lightingLevel = WellLit,
        crossings = show_nat count @ '' controlled crossings'',
        crossingCount = real count,
        sidewalks = ''Wide sidewalks throughout'',
        sidewalkCoverage = Continuous,
        busyRoads = 1\<rparr>,
      c_comfort = \<lparr>
        hills = ''Gentle, mostly flat terrain'',
        hillLevel = HillFlat,
        shade = ''Mostly shaded (75%)'',
        shadePercent = 75,
        restSpots = ''Benches, caf'' @ e_acute @ ''s, and parks nearby'',
        restSpotCount = 5,
        restSpotTypes = [Bench, Cafe, Park]\<rparr>\<rparr>"
| "characteristics count Scenic =
     \<lparr>c_tags = [''Scenic views'', ''Parks'', ''Quieter streets''],
      c_nightFriendly = False,
      c_safety = \<lparr>
        lighting = ''Mixed lighting along parks'',
        lightingLevel = Mixed,
        crossings = show_nat (count + 1) @ '' crossings'',
        crossingCount = real (count + 1),
        sidewalks = ''Park paths and sidewalks'',
        sidewalkCoverage = Continuous,
        busyRoads = 0\<rparr>,
      c_comfort = \<lparr>
        hills = ''Some gentle hills through parks'',
        hillLevel = SomeHills,
        shade = ''Tree-lined paths (80%)'',
        shadePercent = 80,
        restSpots = ''Parks with benches throughout'',
        restSpotCount = 6,
        restSpotTypes = [Bench, Park, Cafe]\<rparr>\<rparr>"

definition analyzeRouteCharacteristics :: "RawRoute \<Rightarrow> nat \<Rightarrow> Characteristics" where
  "analyzeRouteCharacteristics route index =
     (let stepList = firstLegSteps route;
          count = countCrossings stepList;
          type = typeOfIndex index
      in characteristics count type)"

subsection \<open>fetchRoutes\<close>

text \<open>\<^verbatim>\<open>titles\<close>, a record keyed by the route type.\<close>

fun titles :: "RouteType \<Rightarrow> string" where
  "titles Fastest = ''Fastest Route''"
| "titles Safest = ''Safest Route''"
| "titles Comfortable = ''Most Comfortable''"
| "titles Scenic = ''Scenic Route''"

definition comfortTypes :: "LightingLevel list" where
  "comfortTypes = [WellLit, Mixed, Dark]"

definition terrainTypes :: "Terrain list" where
  "terrainTypes = [Flat, SlightIncline, Flat]"

text \<open>The callback of \<^verbatim>\<open>route.legs[0]?.steps.map((step, stepIndex) => ...)\<close>.\<close>

definition stepWithComfort :: "RawStep \<Rightarrow> nat \<Rightarrow> RouteStep" where
  "stepWithComfort step stepIndex =
     \<lparr>instruction = raw_instruction (raw_maneuver step),
      step_distance = raw_distance step,
      step_duration = raw_duration step,
      maneuver = \<lparr>
        maneuver_type = raw_type (raw_maneuver step),
        modifier = raw_modifier (raw_maneuver step),
        location = raw_location (raw_maneuver step)\<rparr>,
      step_comfort = Some \<lparr>
        step_lighting = comfortTypes ! (stepIndex mod 3),
        terrain = terrainTypes ! (stepIndex mod 3),
        step_shade = (stepIndex mod 2 = 0),
        crossing = (if raw_type (raw_maneuver step) = ''turn'' then Some Signal else None),
        restSpot = (if stepIndex mod 4 = 0 then Some Cafe else None)\<rparr>\<rparr>"

definition stepsWithComfort :: "RawRoute \<Rightarrow> RouteStep list" where
  "stepsWithComfort route =
     (case legs route of [] \<Rightarrow> []
      | leg # _ \<Rightarrow>
          map (\<lambda>(stepIndex, step). stepWithComfort step stepIndex)
            (enumerate 0 (leg_steps leg)))"

text \<open>The callback of \<^verbatim>\<open>data.routes.map((route, index) => ...)\<close>; the spread
  \<^verbatim>\<open>...characteristics\<close> sets the four fields of the table entry.\<close>

definition transformRoute :: "RawRoute \<Rightarrow> nat \<Rightarrow> RouteData" where
  "transformRoute route index =
     (let type = typeOfIndex index;
          ch = analyzeRouteCharacteristics route index
      in \<lparr>route_id = ''route-'' @ show_nat index,
          route_type = type,
          title = titles type,
          distance = route_distance route,
          duration = route_duration route,
          geometry = route_geometry route,
          steps = stepsWithComfort route,
          tags = c_tags ch,
          nightFriendly = c_nightFriendly ch,
          safety = c_safety ch,
          comfort = c_comfort ch\<rparr>)"

definition transformRoutes :: "RawRoute list \<Rightarrow> RouteData list" where
  "transformRoutes rawRoutes =
     map (\<lambda>(index, route). transformRoute route index) (enumerate 0 rawRoutes)"

record RouteProfile =
  p_type :: RouteType
  p_title :: string
  multiplier :: real
  p_tags :: "string list"
  p_nightFriendly :: bool
  p_safety :: Safety
  p_comfort :: Comfort

definition routeProfiles :: "RouteProfile list" where
  "routeProfiles =
     [\<lparr>p_type = Fastest,
       p_title = ''Fastest Route'',
       multiplier = 1,
       p_tags = [''Fastest'', ''Direct route''],
       p_nightFriendly = False,
       p_safety = \<lparr>
         lighting = ''Mixed lighting, some darker blocks'',
         lightingLevel = Mixed,
         crossings = ''4 major intersections'',
         crossingCount = 4,
         sidewalks = ''Standard sidewalk coverage'',
         sidewalkCoverage = Partial,
         busyRoads = 2\<rparr>,
       p_comfort = \<lparr>
         hills = ''Direct route, may include hills'',
         hillLevel = SomeHills,
         shade = ''Limited shade (~30%)'',
         shadePercent = 30,
         restSpots = ''Few rest areas'',
         restSpotCount = 1,
         restSpotTypes = [Cafe]\<rparr>\<rparr>,
      \<lparr>p_type = Safest,
       p_title = ''Safest Route'',
       multiplier = 1.1,
       p_tags = [''High safety'', ''Well lit'', ''Night friendly''],
       p_nightFriendly = True,
       p_safety = \<lparr>
         lighting = ''Well lit throughout'',
         lightingLevel = WellLit,
         crossings = ''3 signalized crosswalks'',
         crossingCount = 3,
         sidewalks = ''Continuous sidewalks'',
         sidewalkCoverage = Continuous,
         busyRoads = 1\<rparr>,
       p_comfort = \<lparr>
         hills = ''Moderate terrain'',
         hillLevel = HillFlat,
         shade = ''About 60% shaded'',
         shadePercent = 60,
         restSpots = ''Multiple benches available'',
         restSpotCount = 3,
         restSpotTypes = [Bench, Cafe]\<rparr>\<rparr>,
      \<lparr>p_type = Comfortable,
       p_title = ''Most Comfortable'',
       multiplier = 1.15,
       p_tags = [''High comfort'', ''Shaded'', ''Rest stops''],
       p_nightFriendly = True,
       p_safety = \<lparr>
         lighting = ''Well lit with good visibility'',
         lightingLevel = WellLit,
         crossings = ''3 controlled crossings'',
         crossingCount = 3,
         sidewalks = ''Wide sidewalks throughout'',
         sidewalkCoverage = Continuous,
         busyRoads = 1\<rparr>,
       p_comfort = \<lparr>
         hills = ''Gentle, mostly flat terrain'',
         hillLevel = HillFlat,
         shade = ''Mostly shaded (75%)'',
         shadePercent = 75,
         restSpots = ''Benches, caf'' @ e_acute @ ''s, and parks nearby'',
         restSpotCount = 5,
         restSpotTypes = [Bench, Cafe, Park]\<rparr>\<rparr>]"

text \<open>
  The object pushed by the loop:
  \<^verbatim>\<open>
  { ...baseRoute, id: `route-${index}`, type: profile.type, title: profile.title,
    tags: profile.tags, nightFriendly: profile.nightFriendly,
    duration: baseRoute.duration * profile.multiplier,
    distance: baseRoute.distance * (1 + (index * 0.05)),
    safety: profile.safety, comfort: profile.comfort }
  \<close>
\<close>

definition synthesizeRoute :: "RouteData \<Rightarrow> nat \<Rightarrow> RouteProfile \<Rightarrow> RouteData" where
  "synthesizeRoute baseRoute index profile =
     baseRoute\<lparr>
       route_id := ''route-'' @ show_nat index,
       route_type := p_type profile,
       title := p_title profile,
       tags := p_tags profile,
       nightFriendly := p_nightFriendly profile,
       duration := duration baseRoute * multiplier profile,
       distance := distance baseRoute * (1 + (real index * 0.05)),
       safety := p_safety profile,
       comfort := p_comfort profile\<rparr>"

text \<open>
  \<^verbatim>\<open>
  while (transformedRoutes.length < 3) {
    const baseRoute = transformedRoutes[0];
    const index = transformedRoutes.length;
    const profile = routeProfiles[index];
    transformedRoutes.push({...});
  }
  \<close>
  On an empty array \<^verbatim>\<open>baseRoute\<close> is \<^verbatim>\<open>undefined\<close> and reading \<^verbatim>\<open>baseRoute.duration\<close> throws:
  that is \<open>None\<close>. The result is the array after the loop. The loop body runs with
  \<^verbatim>\<open>index\<close> below 3 only, within the three entries of \<^verbatim>\<open>routeProfiles\<close>.
\<close>

function ensureThreeRoutes :: "RouteData list \<Rightarrow> RouteData list option" where
  "ensureThreeRoutes transformed =
     (if length transformed < 3 then
        (case transformed of
           [] \<Rightarrow> None
         | baseRoute # _ \<Rightarrow>
             ensureThreeRoutes
               (transformed @
                 [synthesizeRoute baseRoute (length transformed)
                    (routeProfiles ! length transformed)]))
      else Some transformed)"
  by pat_completeness auto
termination
  by (relation "measure (\<lambda>transformed. 3 - length transformed)") auto

declare ensureThreeRoutes.simps [simp del]

text \<open>
  The fallback of the \<^verbatim>\<open>catch\<close> block: a straight line from origin to destination, its
  length by the haversine formula.
  \<^verbatim>\<open>Math.atan2(y, x)\<close> is the angle of the point \<open>(x, y)\<close>, in \<open>(-\<pi>, \<pi>]\<close>.
\<close>

definition atan2 :: "real \<Rightarrow> real \<Rightarrow> real" where
  "atan2 y x =
     (if x > 0 then arctan (y / x)
      else if x < 0 \<and> y \<ge> 0 then arctan (y / x) + pi
      else if x < 0 \<and> y < 0 then arctan (y / x) - pi
      else if y > 0 then pi / 2
      else if y < 0 then - pi / 2
      else 0)"

definition haversineDistance :: "Coordinates \<Rightarrow> Coordinates \<Rightarrow> real" where
  "haversineDistance o_coords d_coords =
     (let R = 6371000;
          lat1 = lat o_coords * pi / 180;
          lat2 = lat d_coords * pi / 180;
          deltaLat = (lat d_coords - lat o_coords) * pi / 180;
          deltaLng = (lng d_coords - lng o_coords) * pi / 180;
          a = sin (deltaLat / 2) * sin (deltaLat / 2) +
              cos lat1 * cos lat2 * sin (deltaLng / 2) * sin (deltaLng / 2);
          c = 2 * atan2 (sqrt a) (sqrt (1 - a))
      in R * c)"

definition fallbackGeometry :: "Location \<Rightarrow> Location \<Rightarrow> (real \<times> real) list" where
  "fallbackGeometry orig dest =
     [(lng (coordinates orig), lat (coordinates orig)),
      (lng (coordinates dest), lat (coordinates dest))]"

definition fallbackRoutes :: "Location \<Rightarrow> Location \<Rightarrow> RouteData list" where
  "fallbackRoutes orig dest =
     (let dist = haversineDistance (coordinates orig) (coordinates dest);
          dur = dist / 1.4;
          originPoint = (lng (coordinates orig), lat (coordinates orig));
          destinationPoint = (lng (coordinates dest), lat (coordinates dest))
      in
      [\<lparr>route_id = ''fallback-fastest'',
        route_type = Fastest,
        title = ''Fastest Route'',
        distance = dist * 0.95,
        duration = dur * 0.9,
        geometry = fallbackGeometry orig dest,
        steps =
          [\<lparr>instruction = ''Head toward '' @ name dest,
            step_distance = dist * 0.95,
            step_duration = dur * 0.9,
            maneuver = \<lparr>maneuver_type = ''depart'', modifier = None,
                         location = originPoint\<rparr>,
            step_comfort = Some \<lparr>step_lighting = Mixed, terrain = Flat, step_shade = False,
                                  crossing = None, restSpot = None\<rparr>\<rparr>,
           \<lparr>instruction = ''Arrive at '' @ name dest,
            step_distance = 0,
            step_duration = 0,
            maneuver = \<lparr>maneuver_type = ''arrive'', modifier = None,
                         location = destinationPoint\<rparr>,
            step_comfort = Some \<lparr>step_lighting = WellLit, terrain = Flat, step_shade = True,
                                  crossing = None, restSpot = None\<rparr>\<rparr>],
        tags = [''Fastest'', ''Direct route''],
        nightFriendly = False,
        safety = \<lparr>
          lighting = ''Mixed lighting conditions'',
          lightingLevel = Mixed,
          crossings = ''3 intersections'',
          crossingCount = 3,
          sidewalks = ''Standard sidewalks'',
          sidewalkCoverage = Partial,
          busyRoads = 2\<rparr>,
        comfort = \<lparr>
          hills = ''Direct route'',
          hillLevel = SomeHills,
          shade = ''Limited shade (~30%)'',
          shadePercent = 30,
          restSpots = ''Few rest areas'',
          restSpotCount = 1,
          restSpotTypes = [Cafe]\<rparr>\<rparr>,
       \<lparr>route_id = ''fallback-safest'',
        route_type = Safest,
        title = ''Safest Route'',
        distance = dist,
        duration = dur,
        geometry = fallbackGeometry orig dest,
        steps =
          [\<lparr>instruction = ''Head toward '' @ name dest @ '' via well-lit streets'',
            step_distance = dist,
            step_duration = dur,
            maneuver = \<lparr>maneuver_type = ''depart'', modifier = None,
                         location = originPoint\<rparr>,
            step_comfort = Some \<lparr>step_lighting = WellLit, terrain = Flat, step_shade = True,
                                  crossing = Some Signal, restSpot = None\<rparr>\<rparr>,
           \<lparr>instruction = ''Arrive at '' @ name dest,
            step_distance = 0,
            step_duration = 0,
            maneuver = \<lparr>maneuver_type = ''arrive'', modifier = None,
                         location = destinationPoint\<rparr>,
            step_comfort = Some \<lparr>step_lighting = WellLit, terrain = Flat, step_shade = True,
                                  crossing = None, restSpot = None\<rparr>\<rparr>],
        tags = [''High safety'', ''Well lit'', ''Night friendly''],
        nightFriendly = True,
        safety = \<lparr>
          lighting = ''Well lit throughout'',
          lightingLevel = WellLit,
          crossings = ''2 signalized crossings'',
          crossingCount = 2,
          sidewalks = ''Continuous sidewalks'',
          sidewalkCoverage = Continuous,
          busyRoads = 1\<rparr>,
        comfort = \<lparr>
          hills = ''Moderate terrain'',
          hillLevel = HillFlat,
          shade = ''About 60% shaded'',
          shadePercent = 60,
          restSpots = ''Multiple benches available'',
          restSpotCount = 3,
          restSpotTypes = [Bench, Cafe]\<rparr>\<rparr>,
       \<lparr>route_id = ''fallback-comfortable'',
        route_type = Comfortable,
        title = ''Most Comfortable'',
        distance = dist * 1.1,
        duration = dur * 1.15,
        geometry = fallbackGeometry orig dest,
        steps =
          [\<lparr>instruction = ''Head toward '' @ name dest @ '' via shaded route'',
            step_distance = dist * 1.1,
            step_duration = dur * 1.15,
            maneuver = \<lparr>maneuver_type = ''depart'', modifier = None,
                         location = originPoint\<rparr>,
            step_comfort = Some \<lparr>step_lighting = WellLit, terrain = Flat, step_shade = True,
                                  crossing = None, restSpot = Some Park\<rparr>\<rparr>,
           \<lparr>instruction = ''Arrive at '' @ name dest,
            step_distance = 0,
            step_duration = 0,
            maneuver = \<lparr>maneuver_type = ''arrive'', modifier = None,
                         location = destinationPoint\<rparr>,
            step_comfort = Some \<lparr>step_lighting = WellLit, terrain = Flat, step_shade = True,
                                  crossing = None, restSpot = Some Bench\<rparr>\<rparr>],
        tags = [''High comfort'', ''Shaded'', ''Rest stops''],
        nightFriendly = True,
        safety = \<lparr>
          lighting = ''Good visibility'',
          lightingLevel = WellLit,
          crossings = ''2 controlled crossings'',
          crossingCount = 2,
          sidewalks = ''Wide sidewalks'',
          sidewalkCoverage = Continuous,
          busyRoads = 0\<rparr>,
        comfort = \<lparr>
          hills = ''Gentle terrain'',
          hillLevel = HillFlat,
          shade = ''Mostly shaded (75%)'',
          shadePercent = 75,
          restSpots = ''Rest spots and caf'' @ e_acute @ ''s nearby'',
          restSpotCount = 5,
          restSpotTypes = [Bench, Cafe, Park]\<rparr>\<rparr>])"

text \<open>
  What the Directions request gives back: \<^verbatim>\<open>fetch\<close> or \<^verbatim>\<open>response.json()\<close> throws; the
  status is not ok; or the body is read, with \<^verbatim>\<open>data.routes\<close> missing (\<open>None\<close>) or a list
  of well-formed routes.
\<close>

datatype DirectionsResponse =
  FetchThrows
| StatusNotOk nat
| Body "RawRoute list option"

text \<open>\<^verbatim>\<open>list.find(r => r.type === 'safest') || list[0]\<close>\<close>

definition safestOrFirst :: "RouteData list \<Rightarrow> RouteData option" where
  "safestOrFirst routeList =
     (case find (\<lambda>r. route_type r = Safest) routeList of
        Some r \<Rightarrow> Some r
      | None \<Rightarrow> (case routeList of [] \<Rightarrow> None | r # _ \<Rightarrow> Some r))"

text \<open>
  The \<^verbatim>\<open>try\<close> block up to the state setters: the routes to store, or \<open>None\<close> when the
  block throws (status not ok, \<^verbatim>\<open>'No routes found'\<close>, or an exception of the request).
\<close>

definition routesFromResponse :: "DirectionsResponse \<Rightarrow> RouteData list option" where
  "routesFromResponse response =
     (case response of
        FetchThrows \<Rightarrow> None
      | StatusNotOk status \<Rightarrow> None
      | Body None \<Rightarrow> None
      | Body (Some rawRoutes) \<Rightarrow>
          if length rawRoutes = 0 then None
          else ensureThreeRoutes (transformRoutes rawRoutes))"

text \<open>
  \<^verbatim>\<open>fetchRoutes(mode)\<close>, on the state before and the response of the provider. The mode
  goes into the request only. The state after: \<^verbatim>\<open>setIsLoading(true); setError(null)\<close>,
  then the setters of the \<^verbatim>\<open>try\<close> block or of the \<^verbatim>\<open>catch\<close> block, then
  \<^verbatim>\<open>setIsLoading(false)\<close> of \<^verbatim>\<open>finally\<close>.
\<close>

definition fetchRoutes ::
  "RouteState \<Rightarrow> TransportMode option \<Rightarrow> DirectionsResponse \<Rightarrow> RouteState" where
  "fetchRoutes s mode response =
     (case (origin s, destination s) of
        (Some orig, Some dest) \<Rightarrow>
          (let s = s\<lparr>isLoading := True, error := None\<rparr> in
           case routesFromResponse response of
             Some transformed \<Rightarrow>
               s\<lparr>routes := transformed, selectedRoute := safestOrFirst transformed,
                 error := None, isLoading := False\<rparr>
           | None \<Rightarrow>
               s\<lparr>routes := fallbackRoutes orig dest,
                 selectedRoute := safestOrFirst (fallbackRoutes orig dest),
                 isLoading := False\<rparr>)
      | _ \<Rightarrow> s\<lparr>error := Some ''Please set both origin and destination''\<rparr>)"

subsection \<open>Weather data model (WeatherContext.tsx)\<close>

datatype WeatherCondition = Clear | Clouds | Rain | Snow | Fog | Thunderstorm | Drizzle | Mist

record CurrentWeather =
  temp :: real
  feelsLike :: real
  condition :: WeatherCondition
  description :: string
  icon :: string
  precipitation :: real
  humidity :: real
  windSpeed :: real
  uvIndex :: real
  visibility :: real

text \<open>A \<^verbatim>\<open>Date\<close> is its \<^verbatim>\<open>getTime()\<close>, in milliseconds.\<close>

record HourlyForecast =
  h_time :: real
  h_temp :: real
  h_condition :: WeatherCondition
  h_description :: string
  h_icon :: string
  precipProbability :: real
  h_precipitation :: real

record WeatherData =
  current :: CurrentWeather
  hourly :: "HourlyForecast list"
  lastUpdated :: real
  locationName :: string

datatype Severity = Yellow | Orange | Red

record WeatherAlert =
  severity :: Severity
  alert_title :: string
  message :: string
  alert_icon :: string

datatype TimeOfDay =
  EarlyMorning | Morning | Midday | Afternoon | Evening | Night | LateNight

record TimeContext =
  hour :: real
  minute :: real
  timeOfDay :: TimeOfDay
  isDark :: bool
  isRushHour :: bool
  isWeekend :: bool
  displayTime :: string
  sunriseTime :: "string option"
  sunsetTime :: "string option"

subsection \<open>Weather normalisation and alerts (WeatherContext.tsx)\<close>

text \<open>\<^verbatim>\<open>Math.round(x)\<close>: the integer nearest to \<open>x\<close>, a half rounding up.\<close>

definition mathRound :: "real \<Rightarrow> int" where
  "mathRound x = \<lfloor>x + 1 / 2\<rfloor>"

definition mapCondition :: "real \<Rightarrow> WeatherCondition" where
  "mapCondition weatherId =
     (if weatherId \<ge> 200 \<and> weatherId < 300 then Thunderstorm
      else if weatherId \<ge> 300 \<and> weatherId < 400 then Drizzle
      else if weatherId \<ge> 500 \<and> weatherId < 600 then Rain
      else if weatherId \<ge> 600 \<and> weatherId < 700 then Snow
      else if weatherId \<ge> 700 \<and> weatherId < 800 then Fog
      else if weatherId = 800 then Clear
      else Clouds)"

definition kelvinToFahrenheit :: "real \<Rightarrow> real" where
  "kelvinToFahrenheit k = of_int (mathRound ((k - 273.15) * 9 / 5 + 32))"

definition msToMph :: "real \<Rightarrow> real" where
  "msToMph ms = of_int (mathRound (ms * 2.237))"

text \<open>
  \<^verbatim>\<open>generateAlerts(data)\<close>; \<open>now\<close> is \<^verbatim>\<open>Date.now()\<close>. Each rule pushes at most one alert, in
  the order of the source. \<^verbatim>\<open>hourly.slice(0, n)\<close> is \<open>take n\<close>.
\<close>

definition rainSoon :: "WeatherData \<Rightarrow> HourlyForecast option" where
  "rainSoon data =
     find (\<lambda>h. precipProbability h > 50 \<or> h_condition h = Rain \<or> h_condition h = Drizzle)
       (take 2 (hourly data))"

definition generateAlerts :: "real \<Rightarrow> WeatherData \<Rightarrow> WeatherAlert list" where
  "generateAlerts now data =
     (let newAlerts = [];
          newAlerts =
            (case rainSoon data of
               Some h \<Rightarrow>
                 if condition (current data) \<noteq> Rain then
                   newAlerts @
                   [\<lparr>severity = Yellow,
                     alert_title = ''Rain Expected'',
                     message = ''Rain likely in ~'' @ show_int (mathRound ((h_time h - now) / 60000))
                               @ '' min'' @ em_dash @ ''covered route recommended'',
                     alert_icon = emoji_rain_cloud\<rparr>]
                 else newAlerts
             | None \<Rightarrow> newAlerts);
          newAlerts =
            (if condition (current data) = Thunderstorm \<or>
                list_ex (\<lambda>h. h_condition h = Thunderstorm) (take 3 (hourly data))
             then newAlerts @
                  [\<lparr>severity = Red,
                    alert_title = ''Thunderstorm Warning'',
                    message = ''Consider postponing or taking transit'',
                    alert_icon = emoji_storm\<rparr>]
             else newAlerts);
          newAlerts =
            (if temp (current data) > 90 \<or> feelsLike (current data) > 95
             then newAlerts @
                  [\<lparr>severity = Orange,
                    alert_title = ''Heat Advisory'',
                    message = ''Stay hydrated, take breaks in shade'',
                    alert_icon = emoji_hot_face\<rparr>]
             else newAlerts);
          newAlerts =
            (if temp (current data) < 32 \<or> feelsLike (current data) < 25
             then newAlerts @
                  [\<lparr>severity = Orange,
                    alert_title = ''Cold Weather'',
                    message = ''Bundle up, prefer shorter or wind-protected routes'',
                    alert_icon = emoji_cold_face\<rparr>]
             else newAlerts);
          newAlerts =
            (if windSpeed (current data) > 20
             then newAlerts @
                  [\<lparr>severity = Yellow,
                    alert_title = ''Windy Conditions'',
                    message = ''Wind-protected routes recommended'',
                    alert_icon = emoji_wind\<rparr>]
             else newAlerts);
          newAlerts =
            (if visibility (current data) < 1000
             then newAlerts @
                  [\<lparr>severity = Yellow,
                    alert_title = ''Low Visibility'',
                    message = ''Fog or mist'' @ em_dash @ ''prefer well-lit main streets'',
                    alert_icon = emoji_fog\<rparr>]
             else newAlerts);
          newAlerts =
            (if condition (current data) = Rain \<or> condition (current data) = Drizzle
             then newAlerts @
                  [\<lparr>severity = Yellow,
                    alert_title = ''Currently Raining'',
                    message = ''Covered walkways prioritized'',
                    alert_icon = emoji_umbrella_rain\<rparr>]
             else newAlerts);
          newAlerts =
            (if condition (current data) = Snow
             then newAlerts @
                  [\<lparr>severity = Orange,
                    alert_title = ''Snow'',
                    message = ''Watch for slippery surfaces, avoid steep slopes'',
                    alert_icon = emoji_snowflake\<rparr>]
             else newAlerts)
      in newAlerts)"

text \<open>
  The mock snapshot of \<^verbatim>\<open>fetchWeather\<close>; \<open>now\<close> stands for each reading of the clock
  (\<^verbatim>\<open>Date.now()\<close>, \<^verbatim>\<open>new Date()\<close>) while it is built.
  \<^verbatim>\<open>Array.from({ length: 12 }, (_, i) => ...)\<close> maps the indices 0 to 11.
\<close>

definition mockWeather :: "real \<Rightarrow> WeatherData" where
  "mockWeather now =
     \<lparr>current = \<lparr>
        temp = 72,
        feelsLike = 70,
        condition = Clear,
        description = ''clear sky'',
        icon = ''01d'',
        precipitation = 0,
        humidity = 45,
        windSpeed = 8,
        uvIndex = 5,
        visibility = 10000\<rparr>,
      hourly = map (\<lambda>i.
        \<lparr>h_time = now + real i * 3600000,
         h_temp = 72 - real i,
         h_condition = Clear,
         h_description = ''clear sky'',
         h_icon = (if i < 6 then ''01d'' else ''01n''),
         precipProbability = 10,
         h_precipitation = 0\<rparr>) [0..<12],
      lastUpdated = now,
      locationName = ''New York''\<rparr>"

text \<open>
  \<^verbatim>\<open>getRouteWeatherTags()\<close>, on the \<^verbatim>\<open>weather\<close> state it closes over.
\<close>

definition getRouteWeatherTags :: "WeatherData option \<Rightarrow> string list" where
  "getRouteWeatherTags weather =
     (case weather of
        None \<Rightarrow> []
      | Some w \<Rightarrow>
          (let cur = current w;
               tagList = [];
               tagList =
                 (if condition cur = Rain \<or> condition cur = Drizzle \<or> condition cur = Snow
                  then tagList @ [emoji_umbrella @ '' Covered routes preferred'']
                  else tagList);
               tagList =
                 (if temp cur > 85 \<or> uvIndex cur > 6
                  then tagList @ [emoji_tree @ '' Shaded routes preferred'']
                  else tagList);
               tagList =
                 (if windSpeed cur > 15
                  then tagList @ [emoji_house @ '' Wind-protected'']
                  else tagList);
               tagList =
                 (if condition cur = Clear \<and> temp cur \<ge> 60 \<and> temp cur \<le> 80
                  then tagList @ [emoji_sun @ '' Great walking weather'']
                  else tagList);
               tagList =
                 (if condition cur = Fog \<or> visibility cur < 2000
                  then tagList @ [emoji_fog @ '' Low visibility'']
                  else tagList)
           in tagList))"

subsection \<open>Recommendation engine (RoutesList, getSmartRecommendation)\<close>

datatype RoutePreference = Safe | Fast | Comfy

text \<open>\<^verbatim>\<open>const prefMap = { safe: 'safest', fast: 'fastest', comfy: 'comfortable' }\<close>\<close>

fun prefMap :: "RoutePreference \<Rightarrow> RouteType" where
  "prefMap Safe = Safest"
| "prefMap Fast = Fastest"
| "prefMap Comfy = Comfortable"

text \<open>
  The context flags computed at the head of \<^verbatim>\<open>getSmartRecommendation\<close>. The weather is
  \<^verbatim>\<open>WeatherData | null\<close>; \<^verbatim>\<open>weather?.current.condition === 'rain'\<close> is false when it is
  null. \<open>month\<close> is \<^verbatim>\<open>new Date().getMonth()\<close>, from 0 (January) to 11.
  \<^verbatim>\<open>
  const isHotWeather = weather ? weather.current.temp > 85 :
                       (new Date().getMonth() >= 5 && new Date().getMonth() <= 8);
  const isColdWeather = weather ? weather.current.temp < 40 : false;
  const isWindy = weather ? weather.current.windSpeed > 15 : false;
  \<close>
\<close>

definition isRaining :: "WeatherData option \<Rightarrow> bool" where
  "isRaining weather =
     (case weather of None \<Rightarrow> False
      | Some w \<Rightarrow> condition (current w) = Rain \<or> condition (current w) = Drizzle \<or>
                  condition (current w) = Thunderstorm)"

definition isSnowing :: "WeatherData option \<Rightarrow> bool" where
  "isSnowing weather =
     (case weather of None \<Rightarrow> False | Some w \<Rightarrow> condition (current w) = Snow)"

definition isHotWeather :: "WeatherData option \<Rightarrow> nat \<Rightarrow> bool" where
  "isHotWeather weather month =
     (case weather of Some w \<Rightarrow> temp (current w) > 85
      | None \<Rightarrow> month \<ge> 5 \<and> month \<le> 8)"

definition isColdWeather :: "WeatherData option \<Rightarrow> bool" where
  "isColdWeather weather =
     (case weather of Some w \<Rightarrow> temp (current w) < 40 | None \<Rightarrow> False)"

definition isWindy :: "WeatherData option \<Rightarrow> bool" where
  "isWindy weather =
     (case weather of Some w \<Rightarrow> windSpeed (current w) > 15 | None \<Rightarrow> False)"

definition hasWeatherAlerts :: "WeatherAlert list \<Rightarrow> bool" where
  "hasWeatherAlerts alerts = (length alerts > 0)"

definition isMidDay :: "TimeContext \<Rightarrow> bool" where
  "isMidDay tc = (timeOfDay tc = Midday)"

definition isLateNight :: "TimeContext \<Rightarrow> bool" where
  "isLateNight tc = (timeOfDay tc = LateNight)"

text \<open>
  The body of the \<^verbatim>\<open>routes.map\<close> callback updates two local variables, \<^verbatim>\<open>score\<close> and
  \<^verbatim>\<open>reasons\<close>, block by block. Each block is a function on that pair, in the order of the
  source; \<^verbatim>\<open>reasons.push(t)\<close> appends \<open>t\<close>.
\<close>

type_synonym acc = "real \<times> string list"

definition preferenceRule :: "RoutePreference \<Rightarrow> RouteData \<Rightarrow> acc \<Rightarrow> acc" where
  "preferenceRule routePreference route = (\<lambda>(score, reasons).
     if route_type route = prefMap routePreference
     then (score + 30, reasons @ [''matches your preference''])
     else (score, reasons))"

definition rainSnowRule :: "WeatherData option \<Rightarrow> RouteData \<Rightarrow> acc \<Rightarrow> acc" where
  "rainSnowRule weather route = (\<lambda>(score, reasons).
     if isRaining weather \<or> isSnowing weather then
       let score = score + restSpotCount (comfort route) * 10;
           reasons = (if restSpotCount (comfort route) \<ge> 2
                      then reasons @ [''has shelter spots''] else reasons);
           (score, reasons) =
             (if sidewalkCoverage (safety route) = Continuous
              then (score + 20, reasons @ [''continuous sidewalks''])
              else (score, reasons));
           score = (if route_type route = Fastest then score - 15 else score)
       in (score, reasons)
     else (score, reasons))"

text \<open>\<^verbatim>\<open>const shadeScore = route.comfort.shadePercent || 0\<close>: the left operand unless it is
  falsy, and the only falsy number represented here is 0.\<close>

definition hotWeatherRule :: "WeatherData option \<Rightarrow> nat \<Rightarrow> RouteData \<Rightarrow> acc \<Rightarrow> acc" where
  "hotWeatherRule weather month route = (\<lambda>(score, reasons).
     if isHotWeather weather month then
       let shadeScore = (if shadePercent (comfort route) \<noteq> 0
                         then shadePercent (comfort route) else 0);
           score = score + shadeScore * 0.4;
           reasons = (if shadeScore \<ge> 60
                      then reasons @ [''good shade coverage''] else reasons);
           (score, reasons) =
             (if restSpotCount (comfort route) \<ge> 2
              then (score + 20, reasons @ [''rest stops available''])
              else (score, reasons));
           score = (if route_type route = Comfortable \<or> route_type route = Scenic
                    then score + 15 else score)
       in (score, reasons)
     else (score, reasons))"

definition coldWeatherRule :: "WeatherData option \<Rightarrow> RouteData \<Rightarrow> acc \<Rightarrow> acc" where
  "coldWeatherRule weather route = (\<lambda>(score, reasons).
     if isColdWeather weather then
       let (score, reasons) =
             (if route_type route = Fastest
              then (score + 25, reasons @ [''shorter exposure time''])
              else (score, reasons));
           score = (if route_type route = Scenic then score - 10 else score)
       in (score, reasons)
     else (score, reasons))"

definition windyRule :: "WeatherData option \<Rightarrow> RouteData \<Rightarrow> acc \<Rightarrow> acc" where
  "windyRule weather route = (\<lambda>(score, reasons).
     if isWindy weather then
       let (score, reasons) =
             (if route_type route = Comfortable
              then (score + 15, reasons @ [''wind-protected''])
              else (score, reasons));
           score = (if route_type route = Scenic then score - 10 else score)
       in (score, reasons)
     else (score, reasons))"

definition darkRule :: "TimeContext \<Rightarrow> RouteData \<Rightarrow> acc \<Rightarrow> acc" where
  "darkRule tc route = (\<lambda>(score, reasons).
     if isDark tc then
       let (score, reasons) =
             (if lightingLevel (safety route) = WellLit
              then (score + 45, reasons @ [''well-lit for dark hours''])
              else if lightingLevel (safety route) = Mixed
              then (score + 10, reasons)
              else (score - 20, reasons));
           (score, reasons) =
             (if nightFriendly route
              then (score + 30, reasons @ [''night-friendly''])
              else (score, reasons))
       in (score, reasons)
     else (score, reasons))"

definition lateNightRule :: "TimeContext \<Rightarrow> RouteData \<Rightarrow> acc \<Rightarrow> acc" where
  "lateNightRule tc route = (\<lambda>(score, reasons).
     if isLateNight tc then
       let (score, reasons) =
             (if route_type route = Safest
              then (score + 35, reasons @ [''safest for late night''])
              else (score, reasons));
           score = (if route_type route = Scenic then score - 25 else score)
       in (score, reasons)
     else (score, reasons))"

definition rushHourRule :: "TimeContext \<Rightarrow> RouteData \<Rightarrow> acc \<Rightarrow> acc" where
  "rushHourRule tc route = (\<lambda>(score, reasons).
     if isRushHour tc then
       let (score, reasons) =
             (if sidewalkCoverage (safety route) = Continuous
              then (score + 20, reasons @ [''wide sidewalks for rush hour''])
              else (score, reasons));
           score = (if crossingCount (safety route) > 4 then score - 10 else score)
       in (score, reasons)
     else (score, reasons))"

text \<open>\<^verbatim>\<open>if (isMidDay && weather && weather.current.temp > 75)\<close>\<close>

definition middayRule :: "WeatherData option \<Rightarrow> TimeContext \<Rightarrow> RouteData \<Rightarrow> acc \<Rightarrow> acc" where
  "middayRule weather tc route = (\<lambda>(score, reasons).
     if isMidDay tc \<and> (case weather of None \<Rightarrow> False | Some w \<Rightarrow> temp (current w) > 75) then
       let score = score + shadePercent (comfort route) * 0.3;
           reasons = (if shadePercent (comfort route) \<ge> 60
                      then reasons @ [''shaded for midday sun''] else reasons)
       in (score, reasons)
     else (score, reasons))"

definition weekendRule :: "WeatherData option \<Rightarrow> TimeContext \<Rightarrow> RouteData \<Rightarrow> acc \<Rightarrow> acc" where
  "weekendRule weather tc route = (\<lambda>(score, reasons).
     if isWeekend tc \<and> \<not> isDark tc \<and> \<not> isRaining weather \<and> \<not> isColdWeather weather then
       (if route_type route = Scenic \<or> route_type route = Comfortable
        then (score + 15, reasons @ [''nice for weekend stroll''])
        else (score, reasons))
     else (score, reasons))"

definition safetyBonusRule :: "RouteData \<Rightarrow> acc \<Rightarrow> acc" where
  "safetyBonusRule route = (\<lambda>(score, reasons).
     let score = (if sidewalkCoverage (safety route) = Continuous then score + 15 else score);
         (score, reasons) =
           (if crossingCount (safety route) \<le> 3
            then (score + 10, reasons @ [''fewer crossings''])
            else (score, reasons))
     in (score, reasons))"

text \<open>
  \<^verbatim>\<open>
  const avgDuration = routes.reduce((a, r) => a + r.duration, 0) / routes.length;
  if (route.duration > avgDuration * 1.3) { score -= 10; }
  \<close>
  The callback runs on the elements of \<^verbatim>\<open>routes\<close> only, so \<^verbatim>\<open>routes.length\<close> is positive
  wherever the quotient is read.
\<close>

definition avgDuration :: "RouteData list \<Rightarrow> real" where
  "avgDuration routeList = foldl (\<lambda>a r. a + duration r) 0 routeList / real (length routeList)"

definition longRouteRule :: "RouteData list \<Rightarrow> RouteData \<Rightarrow> acc \<Rightarrow> acc" where
  "longRouteRule routeList route = (\<lambda>(score, reasons).
     if duration route > avgDuration routeList * 1.3 then (score - 10, reasons)
     else (score, reasons))"

record ScoredRoute =
  sr_route :: RouteData
  score :: real
  reasons :: "string list"

definition scoreRoute ::
  "RouteData list \<Rightarrow> RoutePreference \<Rightarrow> WeatherData option \<Rightarrow> nat \<Rightarrow> TimeContext \<Rightarrow>
   RouteData \<Rightarrow> ScoredRoute" where
  "scoreRoute routeList routePreference weather month tc route =
     (let acc = (0, []);
          acc = preferenceRule routePreference route acc;
          acc = rainSnowRule weather route acc;
          acc = hotWeatherRule weather month route acc;
          acc = coldWeatherRule weather route acc;
          acc = windyRule weather route acc;
          acc = darkRule tc route acc;
          acc = lateNightRule tc route acc;
          acc = rushHourRule tc route acc;
          acc = middayRule weather tc route acc;
          acc = weekendRule weather tc route acc;
          acc = safetyBonusRule route acc;
          acc = longRouteRule routeList route acc
      in \<lparr>sr_route = route, score = fst acc, reasons = snd acc\<rparr>)"

text \<open>
  \<^verbatim>\<open>scoredRoutes.sort((a, b) => b.score - a.score)\<close>. \<^verbatim>\<open>Array.prototype.sort\<close> is a stable
  sort (ECMAScript 2019): the result is the one ordering of the elements in which
  \<open>a\<close> comes before \<open>b\<close> whenever the comparator is negative on \<open>(a, b)\<close>, and elements on
  which it is zero keep their order. The algorithm is the engine's; insertion sort
  computes that ordering.
\<close>

fun insertBy :: "('a \<Rightarrow> 'a \<Rightarrow> real) \<Rightarrow> 'a \<Rightarrow> 'a list \<Rightarrow> 'a list" where
  "insertBy cmp x [] = [x]"
| "insertBy cmp x (y # ys) = (if cmp x y \<le> 0 then x # y # ys else y # insertBy cmp x ys)"

fun sortBy :: "('a \<Rightarrow> 'a \<Rightarrow> real) \<Rightarrow> 'a list \<Rightarrow> 'a list" where
  "sortBy cmp [] = []"
| "sortBy cmp (x # xs) = insertBy cmp x (sortBy cmp xs)"

definition byScoreDesc :: "ScoredRoute \<Rightarrow> ScoredRoute \<Rightarrow> real" where
  "byScoreDesc a b = score b - score a"

text \<open>
  The reason cascade. \<open>numToString\<close> is the conversion of a number in a template literal;
  \<^verbatim>\<open>${weather?.current.temp}\<close> prints \<^verbatim>\<open>undefined\<close> when there is no weather.
  \<^verbatim>\<open>best.reasons.includes(t)\<close> is membership in the list. \<^verbatim>\<open>alerts[0]\<close> is read under
  \<^verbatim>\<open>hasWeatherAlerts\<close> only, where the list has a first element.
\<close>

definition tempText :: "(real \<Rightarrow> string) \<Rightarrow> WeatherData option \<Rightarrow> string" where
  "tempText numToString weather =
     (case weather of None \<Rightarrow> ''undefined'' | Some w \<Rightarrow> numToString (temp (current w)))"

definition recommendationReason ::
  "(real \<Rightarrow> string) \<Rightarrow> WeatherData option \<Rightarrow> nat \<Rightarrow> WeatherAlert list \<Rightarrow> TimeContext \<Rightarrow>
   string list \<Rightarrow> string" where
  "recommendationReason numToString weather month alerts tc best_reasons =
     (if isRaining weather then emoji_rain_cloud @ '' Best for rainy weather''
      else if isSnowing weather then emoji_snowflake @ '' Safest in snow''
      else if isHotWeather weather month \<and> ''good shade coverage'' \<in> set best_reasons
        then emoji_sun @ '' Best for '' @ tempText numToString weather @ degree_sign @ ''F heat''
      else if isColdWeather weather \<and> ''shorter exposure time'' \<in> set best_reasons
        then emoji_cold_face @ '' Quickest in '' @ tempText numToString weather @ degree_sign
             @ ''F cold''
      else if isWindy weather \<and> ''wind-protected'' \<in> set best_reasons
        then emoji_wind @ '' Wind-protected route''
      else if isDark tc \<and> ''well-lit for dark hours'' \<in> set best_reasons
        then emoji_moon @ '' Best for '' @ displayTime tc @ '' walk''
      else if isLateNight tc \<and> ''safest for late night'' \<in> set best_reasons
        then emoji_moon @ '' Safest for late night''
      else if isRushHour tc \<and> ''wide sidewalks for rush hour'' \<in> set best_reasons
        then emoji_walker @ '' Best for rush hour''
      else if isWeekend tc \<and> ''nice for weekend stroll'' \<in> set best_reasons
        then emoji_tree @ '' Great for weekend walk''
      else if hasWeatherAlerts alerts
        then emoji_warning @ '' '' @ alert_title (hd alerts)
      else if ''matches your preference'' \<in> set best_reasons
        then emoji_star @ '' Recommended for you''
      else if (case weather of None \<Rightarrow> False
               | Some w \<Rightarrow> condition (current w) = Clear \<and> temp (current w) \<ge> 60 \<and>
                           temp (current w) \<le> 80)
        then emoji_sun @ '' Great walking weather''
      else emoji_star @ '' Best overall'')"

record Recommendation =
  routeId :: string
  routeType :: RouteType
  reason :: string

text \<open>
  \<^verbatim>\<open>getSmartRecommendation\<close> closes over the component's \<^verbatim>\<open>routes\<close>, \<^verbatim>\<open>routePreference\<close>,
  \<^verbatim>\<open>weather\<close>, \<^verbatim>\<open>alerts\<close> and \<^verbatim>\<open>timeContext\<close>; here they are arguments. \<^verbatim>\<open>null\<close> is
  \<open>None\<close>. \<open>sortedRoutes\<close> is the array after the in-place sort. After the guard on
  \<^verbatim>\<open>routes.length\<close> it has a first element, so the \<open>[]\<close> case below is never taken.
\<close>

definition scoredRoutes ::
  "RouteData list \<Rightarrow> RoutePreference \<Rightarrow> WeatherData option \<Rightarrow> nat \<Rightarrow> TimeContext \<Rightarrow>
   ScoredRoute list" where
  "scoredRoutes routeList routePreference weather month tc =
     map (scoreRoute routeList routePreference weather month tc) routeList"

definition sortedRoutes ::
  "RouteData list \<Rightarrow> RoutePreference \<Rightarrow> WeatherData option \<Rightarrow> nat \<Rightarrow> TimeContext \<Rightarrow>
   ScoredRoute list" where
  "sortedRoutes routeList routePreference weather month tc =
     sortBy byScoreDesc (scoredRoutes routeList routePreference weather month tc)"

definition getSmartRecommendation ::
  "(real \<Rightarrow> string) \<Rightarrow> RouteData list \<Rightarrow> RoutePreference \<Rightarrow> WeatherData option \<Rightarrow> nat \<Rightarrow>
   WeatherAlert list \<Rightarrow> TimeContext \<Rightarrow> Recommendation option" where
  "getSmartRecommendation numToString routeList routePreference weather month alerts tc =
     (if length routeList = 0 then None
      else case sortedRoutes routeList routePreference weather month tc of
        [] \<Rightarrow> None
      | best # _ \<Rightarrow>
          Some \<lparr>routeId = route_id (sr_route best), routeType = route_type (sr_route best),
                reason = recommendationReason numToString weather month alerts tc
                           (reasons best)\<rparr>)"

subsection \<open>fetchWeather\<close>

text \<open>
  The bodies of the two weather responses, as far as \<^verbatim>\<open>fetchWeather\<close> reads them. A field
  read with \<^verbatim>\<open>?.\<close> or defaulted with \<^verbatim>\<open>||\<close> may be missing; the others are present.
\<close>

record WeatherEntry =
  weather_id :: real
  weather_description :: string
  weather_icon :: string

record OneCallCurrent =
  cur_temp :: real
  cur_feels_like :: real
  cur_weather0 :: WeatherEntry
  cur_rain_1h :: "real option"
  cur_snow_1h :: "real option"
  cur_humidity :: real
  cur_wind_speed :: real
  cur_uvi :: "real option"
  cur_visibility :: "real option"
  cur_sunrise :: "real option"
  cur_sunset :: "real option"

record OneCallHour =
  hour_dt :: real
  hour_temp :: real
  hour_weather0 :: WeatherEntry
  hour_pop :: "real option"
  hour_rain_1h :: "real option"
  hour_snow_1h :: "real option"

record OneCallData =
  oc_current :: OneCallCurrent
  oc_hourly :: "OneCallHour list"
  oc_timezone :: string

record BasicWeatherData =
  main_temp :: real
  main_feels_like :: real
  main_humidity :: real
  basic_weather0 :: WeatherEntry
  basic_rain_1h :: "real option"
  basic_snow_1h :: "real option"
  wind_speed :: real
  basic_visibility :: "real option"
  basic_name :: string
  sys_sunrise :: "real option"
  sys_sunset :: "real option"

text \<open>An HTTP exchange: \<^verbatim>\<open>fetch\<close> or \<^verbatim>\<open>json()\<close> throws, \<^verbatim>\<open>response.ok\<close> is false, or the
  body is read.\<close>

datatype 'a HttpResult = Throws | NotOk | Ok 'a

text \<open>\<^verbatim>\<open>a || b\<close> on an optional number: \<open>a\<close> unless it is missing or 0.\<close>

definition orElse :: "real option \<Rightarrow> real \<Rightarrow> real" where
  "orElse a b = (case a of None \<Rightarrow> b | Some v \<Rightarrow> if v \<noteq> 0 then v else b)"

text \<open>\<^verbatim>\<open>a && b\<close> as a condition, on two optional numbers: both present and not 0.\<close>

definition bothTruthy :: "real option \<Rightarrow> real option \<Rightarrow> bool" where
  "bothTruthy a b =
     (case (a, b) of (Some x, Some y) \<Rightarrow> x \<noteq> 0 \<and> y \<noteq> 0 | _ \<Rightarrow> False)"

text \<open>\<^verbatim>\<open>data.timezone.split('/').pop()?.replace('_', ' ') || 'Unknown'\<close>: \<^verbatim>\<open>split\<close> gives at
  least one part, \<^verbatim>\<open>pop\<close> the last one, \<^verbatim>\<open>replace\<close> with a string pattern changes the first
  occurrence, and the empty string is falsy.\<close>

fun splitOn :: "char \<Rightarrow> string \<Rightarrow> string list" where
  "splitOn c [] = [[]]"
| "splitOn c (x # xs) =
     (if x = c then [] # splitOn c xs
      else (case splitOn c xs of [] \<Rightarrow> [[x]] | y # ys \<Rightarrow> (x # y) # ys))"

fun replaceFirst :: "char \<Rightarrow> char \<Rightarrow> string \<Rightarrow> string" where
  "replaceFirst a b [] = []"
| "replaceFirst a b (x # xs) = (if x = a then b # xs else x # replaceFirst a b xs)"

definition locationOfTimezone :: "string \<Rightarrow> string" where
  "locationOfTimezone tz =
     (let lastPart = replaceFirst (CHR ''_'') (CHR '' '') (last (splitOn (CHR ''/'') tz))
      in if lastPart = [] then ''Unknown'' else lastPart)"

record SunTimes =
  sunrise :: "real option"
  sunset :: "real option"

text \<open>The state of \<^verbatim>\<open>WeatherProvider\<close> that \<^verbatim>\<open>fetchWeather\<close> writes; the fields
  \<^verbatim>\<open>isLoading\<close> and \<^verbatim>\<open>error\<close> are \<open>w_isLoading\<close> and \<open>w_error\<close>.\<close>

record WeatherState =
  weather :: "WeatherData option"
  w_isLoading :: bool
  w_error :: "string option"
  alerts :: "WeatherAlert list"
  sunTimes :: SunTimes

text \<open>The initial state: \<^verbatim>\<open>useState(null)\<close>, \<^verbatim>\<open>useState(false)\<close>, \<^verbatim>\<open>useState(null)\<close>,
  \<^verbatim>\<open>useState([])\<close>, \<^verbatim>\<open>useState({})\<close>.\<close>

definition initialWeatherState :: WeatherState where
  "initialWeatherState =
     \<lparr>weather = None, w_isLoading = False, w_error = None, alerts = [],
      sunTimes = \<lparr>sunrise = None, sunset = None\<rparr>\<rparr>"

definition weatherFromBasic :: "real \<Rightarrow> BasicWeatherData \<Rightarrow> WeatherData" where
  "weatherFromBasic now currentData =
     \<lparr>current = \<lparr>
        temp = kelvinToFahrenheit (main_temp currentData),
        feelsLike = kelvinToFahrenheit (main_feels_like currentData),
        condition = mapCondition (weather_id (basic_weather0 currentData)),
        description = weather_description (basic_weather0 currentData),
        icon = weather_icon (basic_weather0 currentData),
        precipitation =
          orElse (basic_rain_1h currentData) (orElse (basic_snow_1h currentData) 0),
        humidity = main_humidity currentData,
        windSpeed = msToMph (wind_speed currentData),
        uvIndex = 0,
        visibility = orElse (basic_visibility currentData) 10000\<rparr>,
      hourly = [],
      lastUpdated = now,
      locationName = basic_name currentData\<rparr>"

definition hourlyFromOneCall :: "OneCallHour \<Rightarrow> HourlyForecast" where
  "hourlyFromOneCall h =
     \<lparr>h_time = hour_dt h * 1000,
      h_temp = kelvinToFahrenheit (hour_temp h),
      h_condition = mapCondition (weather_id (hour_weather0 h)),
      h_description = weather_description (hour_weather0 h),
      h_icon = weather_icon (hour_weather0 h),
      precipProbability = of_int (mathRound (orElse (hour_pop h) 0 * 100)),
      h_precipitation = orElse (hour_rain_1h h) (orElse (hour_snow_1h h) 0)\<rparr>"

definition weatherFromOneCall :: "real \<Rightarrow> OneCallData \<Rightarrow> WeatherData" where
  "weatherFromOneCall now data =
     \<lparr>current = \<lparr>
        temp = kelvinToFahrenheit (cur_temp (oc_current data)),
        feelsLike = kelvinToFahrenheit (cur_feels_like (oc_current data)),
        condition = mapCondition (weather_id (cur_weather0 (oc_current data))),
        description = weather_description (cur_weather0 (oc_current data)),
        icon = weather_icon (cur_weather0 (oc_current data)),
        precipitation =
          orElse (cur_rain_1h (oc_current data)) (orElse (cur_snow_1h (oc_current data)) 0),
        humidity = cur_humidity (oc_current data),
        windSpeed = msToMph (cur_wind_speed (oc_current data)),
        uvIndex = orElse (cur_uvi (oc_current data)) 0,
        visibility = orElse (cur_visibility (oc_current data)) 10000\<rparr>,
      hourly = map hourlyFromOneCall (take 12 (oc_hourly data)),
      lastUpdated = now,
      locationName = locationOfTimezone (oc_timezone data)\<rparr>"

text \<open>The \<^verbatim>\<open>catch\<close> block followed by \<^verbatim>\<open>finally\<close>.\<close>

definition weatherFetchFailed :: "WeatherState \<Rightarrow> WeatherState" where
  "weatherFetchFailed s =
     s\<lparr>w_error := Some ''Failed to fetch weather data'', w_isLoading := False\<rparr>"

text \<open>
  \<^verbatim>\<open>fetchWeather(lat, lng)\<close>. \<open>apiKey\<close> is the constant \<^verbatim>\<open>OPENWEATHER_API_KEY\<close> (the empty
  string in the source, to be filled in by the user); \<open>now\<close> is the clock; \<open>oneCall\<close> and
  \<open>basic\<close> are the outcomes of the One Call request and of the request to the basic
  endpoint, the second one made only when the first is not ok. The coordinates go into
  the requests only.
  \<^verbatim>\<open>
  if (!OPENWEATHER_API_KEY) {
    ... setWeather(mockWeather); setAlerts(generateAlerts(mockWeather)); return;
  }
  setIsLoading(true); setError(null);
  try { ... } catch (err) {
    console.error('Weather fetch error:', err);
    setError('Failed to fetch weather data');
  } finally { setIsLoading(false); }
  \<close>
\<close>

definition fetchWeather ::
  "string \<Rightarrow> real \<Rightarrow> OneCallData HttpResult \<Rightarrow> BasicWeatherData HttpResult \<Rightarrow>
   WeatherState \<Rightarrow> real \<Rightarrow> real \<Rightarrow> WeatherState" where
  "fetchWeather apiKey now oneCall basic s latitude longitude =
     (if apiKey = [] then
        s\<lparr>weather := Some (mockWeather now), alerts := generateAlerts now (mockWeather now)\<rparr>
      else
        (let s = s\<lparr>w_isLoading := True, w_error := None\<rparr> in
         case oneCall of
           Throws \<Rightarrow> weatherFetchFailed s
         | NotOk \<Rightarrow>
             (case basic of
                Throws \<Rightarrow> weatherFetchFailed s
              | NotOk \<Rightarrow> weatherFetchFailed s
              | Ok currentData \<Rightarrow>
                  (let weatherData = weatherFromBasic now currentData;
                       s = s\<lparr>weather := Some weatherData,
                             alerts := generateAlerts now weatherData\<rparr>;
                       s = (if bothTruthy (sys_sunrise currentData) (sys_sunset currentData)
                            then s\<lparr>sunTimes := \<lparr>sunrise = sys_sunrise currentData,
                                                  sunset = sys_sunset currentData\<rparr>\<rparr>
                            else s)
                   in s\<lparr>w_isLoading := False\<rparr>))
         | Ok data \<Rightarrow>
             (let s = (if bothTruthy (cur_sunrise (oc_current data)) (cur_sunset (oc_current data))
                       then s\<lparr>sunTimes := \<lparr>sunrise = cur_sunrise (oc_current data),
                                             sunset = cur_sunset (oc_current data)\<rparr>\<rparr>
                       else s);
                  weatherData = weatherFromOneCall now data;
                  s = s\<lparr>weather := Some weatherData, alerts := generateAlerts now weatherData\<rparr>
              in s\<lparr>w_isLoading := False\<rparr>)))"

subsection \<open>The scoring rules as the specification words them\<close>

text \<open>
  The specification (4.3) lists the score as a sum of independent contributions. These
  are its items 1, 3, 4 and 5 for a call without a weather snapshot, where the midday
  rule does not apply and "not raining, not cold" holds; the mean is the sum of the
  durations over their number.
\<close>

definition spec_preferenceMatch :: "RoutePreference \<Rightarrow> RouteData \<Rightarrow> real" where
  "spec_preferenceMatch pref r = (if route_type r = prefMap pref then 30 else 0)"

definition spec_timeRules :: "TimeContext \<Rightarrow> RouteData \<Rightarrow> real" where
  "spec_timeRules tc r =
     (if isDark tc
      then (case lightingLevel (safety r) of WellLit \<Rightarrow> 45 | Mixed \<Rightarrow> 10 | Dark \<Rightarrow> - 20)
           + (if nightFriendly r then 30 else 0)
      else 0)
   + (if timeOfDay tc = LateNight
      then (if route_type r = Safest then 35 else 0)
           + (if route_type r = Scenic then - 25 else 0)
      else 0)
   + (if isRushHour tc
      then (if sidewalkCoverage (safety r) = Continuous then 20 else 0)
           + (if crossingCount (safety r) > 4 then - 10 else 0)
      else 0)
   + (if isWeekend tc \<and> \<not> isDark tc
      then (if route_type r = Scenic \<or> route_type r = Comfortable then 15 else 0)
      else 0)"

definition spec_contextFree :: "RouteData \<Rightarrow> real" where
  "spec_contextFree r =
     (if sidewalkCoverage (safety r) = Continuous then 15 else 0)
   + (if crossingCount (safety r) \<le> 3 then 10 else 0)"

definition spec_lengthPenalty :: "RouteData list \<Rightarrow> RouteData \<Rightarrow> real" where
  "spec_lengthPenalty candidates r =
     (if duration r > 1.3 * (sum_list (map duration candidates) / real (length candidates))
      then - 10 else 0)"

definition spec_scoreWithoutWeather ::
  "RouteData list \<Rightarrow> RoutePreference \<Rightarrow> TimeContext \<Rightarrow> RouteData \<Rightarrow> real" where
  "spec_scoreWithoutWeather candidates pref tc r =
     spec_preferenceMatch pref r + spec_timeRules tc r + spec_contextFree r
     + spec_lengthPenalty candidates r"

text \<open>What the hot-weather block of the source adds to the score of a route when it
  runs.\<close>

definition hotWeatherBonus :: "RouteData \<Rightarrow> real" where
  "hotWeatherBonus r =
     shadePercent (comfort r) * 0.4
   + (if restSpotCount (comfort r) \<ge> 2 then 20 else 0)
   + (if route_type r = Comfortable \<or> route_type r = Scenic then 15 else 0)"

subsection \<open>The score in double precision\<close>

text \<open>
  The program's numbers are IEEE 754 doubles: every \<^verbatim>\<open>+\<close>, \<^verbatim>\<open>-\<close>, \<^verbatim>\<open>*\<close> and \<^verbatim>\<open>/\<close> gives the
  double nearest to the exact result, ties going to the even significand, and a decimal
  literal such as \<^verbatim>\<open>0.4\<close> is the double nearest to it. \<open>fl\<close> is that rounding, on the
  reals: a double in the binade from \<open>2 ^ e\<close> up to \<open>2 ^ (e + 1)\<close> is a multiple of
  \<open>2 ^ (e - 52)\<close>, and below \<open>2 ^ (- 1022)\<close> (the subnormal numbers) a multiple of
  \<open>2 ^ (- 1074)\<close>. Overflow is not
  represented: beyond the largest finite double the program holds \<^verbatim>\<open>Infinity\<close>, and \<open>fl\<close>
  is the IEEE result only below it.
\<close>

definition roundHalfEven :: "real \<Rightarrow> int" where
  "roundHalfEven y =
     (let f = \<lfloor>y\<rfloor> in
      if y - of_int f < 1 / 2 then f
      else if y - of_int f > 1 / 2 then f + 1
      else if even f then f else f + 1)"

definition binade :: "real \<Rightarrow> int" where
  "binade x = max \<lfloor>log 2 \<bar>x\<bar>\<rfloor> (- 1022)"

definition fl :: "real \<Rightarrow> real" where
  "fl x =
     (if x = 0 then 0
      else (let q = 2 powr (of_int (binade x) - 52)
            in q * of_int (roundHalfEven (x / q))))"

text \<open>
  The score of a route, once more, as the list of the amounts the \<^verbatim>\<open>score += ...\<close> and
  \<^verbatim>\<open>score -= ...\<close> statements of the \<^verbatim>\<open>routes.map\<close> callback add, in the order in which they
  run, one definition per block of the source (a statement that does not run adds no
  entry). \<open>rnd\<close> is the rounding of an arithmetic result: the product inside an
  increment is rounded, the literal \<^verbatim>\<open>0.4\<close> is \<open>rnd 0.4\<close>, and the running score is rounded
  after each addition. The reasons do not enter the score and are left out.
\<close>

definition preferenceInc :: "RoutePreference \<Rightarrow> RouteData \<Rightarrow> real list" where
  "preferenceInc routePreference route =
     (if route_type route = prefMap routePreference then [30] else [])"

definition rainSnowInc :: "(real \<Rightarrow> real) \<Rightarrow> WeatherData option \<Rightarrow> RouteData \<Rightarrow> real list" where
  "rainSnowInc rnd w route =
     (if isRaining w \<or> isSnowing w then
        [rnd (restSpotCount (comfort route) * 10)]
        @ (if sidewalkCoverage (safety route) = Continuous then [20] else [])
        @ (if route_type route = Fastest then [- 15] else [])
      else [])"

definition hotWeatherInc ::
  "(real \<Rightarrow> real) \<Rightarrow> WeatherData option \<Rightarrow> nat \<Rightarrow> RouteData \<Rightarrow> real list" where
  "hotWeatherInc rnd w month route =
     (if isHotWeather w month then
        (let shadeScore = (if shadePercent (comfort route) \<noteq> 0
                           then shadePercent (comfort route) else 0)
         in [rnd (shadeScore * rnd 0.4)]
            @ (if restSpotCount (comfort route) \<ge> 2 then [20] else [])
            @ (if route_type route = Comfortable \<or> route_type route = Scenic
               then [15] else []))
      else [])"

definition coldWeatherInc :: "WeatherData option \<Rightarrow> RouteData \<Rightarrow> real list" where
  "coldWeatherInc w route =
     (if isColdWeather w then
        (if route_type route = Fastest then [25] else [])
        @ (if route_type route = Scenic then [- 10] else [])
      else [])"

definition windyInc :: "WeatherData option \<Rightarrow> RouteData \<Rightarrow> real list" where
  "windyInc w route =
     (if isWindy w then
        (if route_type route = Comfortable then [15] else [])
        @ (if route_type route = Scenic then [- 10] else [])
      else [])"

definition darkInc :: "TimeContext \<Rightarrow> RouteData \<Rightarrow> real list" where
  "darkInc tc route =
     (if isDark tc then
        (if lightingLevel (safety route) = WellLit then [45]
         else if lightingLevel (safety route) = Mixed then [10]
         else [- 20])
        @ (if nightFriendly route then [30] else [])
      else [])"

definition lateNightInc :: "TimeContext \<Rightarrow> RouteData \<Rightarrow> real list" where
  "lateNightInc tc route =
     (if isLateNight tc then
        (if route_type route = Safest then [35] else [])
        @ (if route_type route = Scenic then [- 25] else [])
      else [])"

definition rushHourInc :: "TimeContext \<Rightarrow> RouteData \<Rightarrow> real list" where
  "rushHourInc tc route =
     (if isRushHour tc then
        (if sidewalkCoverage (safety route) = Continuous then [20] else [])
        @ (if crossingCount (safety route) > 4 then [- 10] else [])
      else [])"

definition middayInc ::
  "(real \<Rightarrow> real) \<Rightarrow> WeatherData option \<Rightarrow> TimeContext \<Rightarrow> RouteData \<Rightarrow> real list" where
  "middayInc rnd w tc route =
     (if isMidDay tc \<and> (case w of None \<Rightarrow> False | Some wd \<Rightarrow> temp (current wd) > 75)
      then [rnd (shadePercent (comfort route) * rnd 0.3)] else [])"

definition weekendInc :: "WeatherData option \<Rightarrow> TimeContext \<Rightarrow> RouteData \<Rightarrow> real list" where
  "weekendInc w tc route =
     (if isWeekend tc \<and> \<not> isDark tc \<and> \<not> isRaining w \<and> \<not> isColdWeather w then
        (if route_type route = Scenic \<or> route_type route = Comfortable then [15] else [])
      else [])"

definition safetyBonusInc :: "RouteData \<Rightarrow> real list" where
  "safetyBonusInc route =
     (if sidewalkCoverage (safety route) = Continuous then [15] else [])
     @ (if crossingCount (safety route) \<le> 3 then [10] else [])"

text \<open>\<^verbatim>\<open>routes.reduce((a, r) => a + r.duration, 0) / routes.length\<close>, each sum and the
  quotient rounded; then \<^verbatim>\<open>route.duration > avgDuration * 1.3\<close>.\<close>

definition avgDurationWith :: "(real \<Rightarrow> real) \<Rightarrow> RouteData list \<Rightarrow> real" where
  "avgDurationWith rnd routeList =
     rnd (foldl (\<lambda>a r. rnd (a + duration r)) 0 routeList / real (length routeList))"

definition longRouteInc :: "(real \<Rightarrow> real) \<Rightarrow> RouteData list \<Rightarrow> RouteData \<Rightarrow> real list" where
  "longRouteInc rnd routeList route =
     (if duration route > rnd (avgDurationWith rnd routeList * rnd 1.3) then [- 10] else [])"

definition scoreIncrements ::
  "(real \<Rightarrow> real) \<Rightarrow> RouteData list \<Rightarrow> RoutePreference \<Rightarrow> WeatherData option \<Rightarrow> nat \<Rightarrow>
   TimeContext \<Rightarrow> RouteData \<Rightarrow> real list" where
  "scoreIncrements rnd routeList routePreference w month tc route =
     preferenceInc routePreference route
     @ rainSnowInc rnd w route
     @ hotWeatherInc rnd w month route
     @ coldWeatherInc w route
     @ windyInc w route
     @ darkInc tc route
     @ lateNightInc tc route
     @ rushHourInc tc route
     @ middayInc rnd w tc route
     @ weekendInc w tc route
     @ safetyBonusInc route
     @ longRouteInc rnd routeList route"

definition scoreWith ::
  "(real \<Rightarrow> real) \<Rightarrow> RouteData list \<Rightarrow> RoutePreference \<Rightarrow> WeatherData option \<Rightarrow> nat \<Rightarrow>
   TimeContext \<Rightarrow> RouteData \<Rightarrow> real" where
  "scoreWith rnd routeList routePreference w month tc route =
     foldl (\<lambda>s d. rnd (s + d)) 0
       (scoreIncrements rnd routeList routePreference w month tc route)"

text \<open>The score as the program computes it: every operation rounded to a double.\<close>

definition scoreDouble ::
  "RouteData list \<Rightarrow> RoutePreference \<Rightarrow> WeatherData option \<Rightarrow> nat \<Rightarrow> TimeContext \<Rightarrow>
   RouteData \<Rightarrow> real" where
  "scoreDouble = scoreWith fl"

subsection \<open>Example inputs\<close>

text \<open>\<^verbatim>\<open>DEFAULT_DESTINATION\<close> and the initial state of \<^verbatim>\<open>RouteProvider\<close>.\<close>

definition DEFAULT_DESTINATION :: Location where
  "DEFAULT_DESTINATION =
     \<lparr>name = ''6 MetroTech Center'',
      address = ''6 MetroTech Center, Brooklyn, NY 11201'',
      coordinates = \<lparr>lng = - 73.9857, lat = 40.6944\<rparr>\<rparr>"

definition initialRouteState :: RouteState where
  "initialRouteState =
     \<lparr>origin = None, destination = Some DEFAULT_DESTINATION, routes = [],
      selectedRoute = None, transportMode = Walking, isLoading = False, error = None\<rparr>"

text \<open>A state with an origin, a walk of six maneuvers with four crossings, the three
  routes \<^verbatim>\<open>fetchRoutes\<close> makes of it, two time contexts and a rainy snapshot.\<close>

definition example_origin :: Location where
  "example_origin =
     \<lparr>name = ''Current Location'',
      address = ''Washington Square, New York'',
      coordinates = \<lparr>lng = - 73.9965, lat = 40.7295\<rparr>\<rparr>"

definition example_state :: RouteState where
  "example_state = initialRouteState\<lparr>origin := Some example_origin\<rparr>"

definition example_step :: "string \<Rightarrow> real \<Rightarrow> RawStep" where
  "example_step kind d =
     \<lparr>raw_distance = d, raw_duration = d * 0.72,
      raw_maneuver = \<lparr>raw_instruction = ''Continue'', raw_type = kind,
                       raw_modifier = None, raw_location = (- 73.99, 40.72)\<rparr>\<rparr>"

definition example_raw_route :: RawRoute where
  "example_raw_route =
     \<lparr>legs = [\<lparr>leg_steps =
         [example_step ''depart'' 200, example_step ''turn'' 200,
          example_step ''turn'' 200, example_step ''end of road'' 200,
          example_step ''turn'' 200, example_step ''arrive'' 0]\<rparr>],
      route_distance = 1000,
      route_duration = 720,
      route_geometry = [(- 73.9965, 40.7295), (- 73.9857, 40.6944)]\<rparr>"

definition example_fastest :: RouteData where
  "example_fastest = transformRoute example_raw_route 0"

definition example_safest :: RouteData where
  "example_safest = synthesizeRoute example_fastest 1 (routeProfiles ! 1)"

definition example_comfortable :: RouteData where
  "example_comfortable = synthesizeRoute example_fastest 2 (routeProfiles ! 2)"

definition example_routes :: "RouteData list" where
  "example_routes = [example_fastest, example_safest, example_comfortable]"

text \<open>The safest route twice, under two identities: a tie.\<close>

definition example_tie :: "RouteData list" where
  "example_tie = [example_safest, example_safest\<lparr>route_id := ''route-9''\<rparr>]"

definition example_night :: TimeContext where
  "example_night =
     \<lparr>hour = 21, minute = 30, timeOfDay = Night, isDark = True, isRushHour = False,
      isWeekend = False, displayTime = ''9:30 PM'', sunriseTime = None, sunsetTime = None\<rparr>"

definition example_afternoon :: TimeContext where
  "example_afternoon =
     \<lparr>hour = 15, minute = 0, timeOfDay = Afternoon, isDark = False, isRushHour = False,
      isWeekend = False, displayTime = ''3:00 PM'', sunriseTime = None, sunsetTime = None\<rparr>"

definition example_rain :: WeatherData where
  "example_rain =
     \<lparr>current = \<lparr>temp = 60, feelsLike = 58, condition = Rain, description = ''light rain'',
                  icon = ''10d'', precipitation = 1, humidity = 80, windSpeed = 5,
                  uvIndex = 1, visibility = 8000\<rparr>,
      hourly = [], lastUpdated = 0, locationName = ''New York''\<rparr>"

text \<open>A number printer for whole numbers, standing in for the conversion of a template
  literal.\<close>

definition example_numToString :: "real \<Rightarrow> string" where
  "example_numToString x = show_int \<lfloor>x\<rfloor>"

text \<open>The safest route with \<open>2 ^ 60\<close> rest spots, and the same route unlit.\<close>

definition example_crowded :: RouteData where
  "example_crowded =
     example_safest\<lparr>comfort := (comfort example_safest)\<lparr>restSpotCount := 2 ^ 60\<rparr>\<rparr>"

definition example_crowded_unlit :: RouteData where
  "example_crowded_unlit =
     example_crowded\<lparr>nightFriendly := False,
       safety := (safety example_crowded)\<lparr>lightingLevel := Dark\<rparr>\<rparr>"

section \<open>Properties\<close>

subsection \<open>The stable sort\<close>

lemma set_insertBy: "set (insertBy cmp x xs) = insert x (set xs)"
  by (induction xs) auto

lemma length_insertBy: "length (insertBy cmp x xs) = Suc (length xs)"
  by (induction xs) simp_all

lemma length_sortBy: "length (sortBy cmp xs) = length xs"
  by (induction xs) (simp_all add: length_insertBy)

lemma sortBy_Nil_iff: "sortBy cmp xs = [] \<longleftrightarrow> xs = []"
  using length_sortBy [of cmp xs] by (metis length_0_conv)

text \<open>The sorted list is descending in the score.\<close>

lemma desc_insertBy:
  "sorted_wrt (\<lambda>a b. score b \<le> score a) xs \<Longrightarrow>
   sorted_wrt (\<lambda>a b. score b \<le> score a) (insertBy byScoreDesc x xs)"
  by (induction xs) (auto simp: set_insertBy byScoreDesc_def)

lemma desc_sortBy: "sorted_wrt (\<lambda>a b. score b \<le> score a) (sortBy byScoreDesc xs)"
  by (induction xs) (simp_all add: desc_insertBy)

text \<open>Stability: the elements of any one score stand in the order of the input.\<close>

lemma filter_insertBy_other: "\<not> P x \<Longrightarrow> filter P (insertBy cmp x xs) = filter P xs"
  by (induction xs) simp_all

lemma insertBy_front:
  "sorted_wrt (\<lambda>a b. score b \<le> score a) xs \<Longrightarrow> score x = k \<Longrightarrow>
   filter (\<lambda>y. score y = k) (insertBy byScoreDesc x xs) = x # filter (\<lambda>y. score y = k) xs"
  by (induction xs) (auto simp: byScoreDesc_def)

lemma sortBy_stable:
  "filter (\<lambda>y. score y = k) (sortBy byScoreDesc xs) = filter (\<lambda>y. score y = k) xs"
proof (induction xs)
  case Nil
  show ?case by simp
next
  case (Cons x xs)
  show ?case
  proof (cases "score x = k")
    case True
    with Cons show ?thesis by (simp add: insertBy_front desc_sortBy)
  next
    case False
    with Cons show ?thesis by (simp add: filter_insertBy_other)
  qed
qed

text \<open>The head of the sorted list is the first element of the input whose score is
  maximal.\<close>

lemma hd_sortBy_first_max:
  "xs \<noteq> [] \<Longrightarrow>
   \<exists>i < length xs. hd (sortBy byScoreDesc xs) = xs ! i \<and>
     (\<forall>j < length xs. score (xs ! j) \<le> score (xs ! i)) \<and>
     (\<forall>j < i. score (xs ! j) < score (xs ! i))"
proof (induction xs)
  case Nil
  then show ?case by simp
next
  case (Cons x xs)
  show ?case
  proof (cases "xs = []")
    case True
    then show ?thesis by simp
  next
    case False
    with Cons.IH obtain i where i: "i < length xs" "hd (sortBy byScoreDesc xs) = xs ! i"
      "\<forall>j < length xs. score (xs ! j) \<le> score (xs ! i)"
      "\<forall>j < i. score (xs ! j) < score (xs ! i)"
      by blast
    from False obtain y ys where ys: "sortBy byScoreDesc xs = y # ys"
      by (cases "sortBy byScoreDesc xs") (simp_all add: sortBy_Nil_iff)
    with i have y: "y = xs ! i" by simp
    show ?thesis
    proof (cases "score y \<le> score x")
      case True
      then have "hd (sortBy byScoreDesc (x # xs)) = (x # xs) ! 0"
        by (simp add: ys byScoreDesc_def)
      moreover have "\<forall>j < length (x # xs). score ((x # xs) ! j) \<le> score ((x # xs) ! 0)"
      proof (intro allI impI)
        fix j assume "j < length (x # xs)"
        then show "score ((x # xs) ! j) \<le> score ((x # xs) ! 0)"
          using i(3) True y by (cases j) (auto intro: order_trans)
      qed
      ultimately show ?thesis by (intro exI [of _ 0]) simp
    next
      case False
      then have "hd (sortBy byScoreDesc (x # xs)) = (x # xs) ! Suc i"
        by (simp add: ys byScoreDesc_def y)
      moreover have "\<forall>j < length (x # xs). score ((x # xs) ! j) \<le> score ((x # xs) ! Suc i)"
      proof (intro allI impI)
        fix j assume "j < length (x # xs)"
        then show "score ((x # xs) ! j) \<le> score ((x # xs) ! Suc i)"
          using i(3) False y by (cases j) auto
      qed
      moreover have "\<forall>j < Suc i. score ((x # xs) ! j) < score ((x # xs) ! Suc i)"
      proof (intro allI impI)
        fix j assume "j < Suc i"
        then show "score ((x # xs) ! j) < score ((x # xs) ! Suc i)"
          using i(4) False y by (cases j) auto
      qed
      ultimately show ?thesis using i(1) by (intro exI [of _ "Suc i"]) simp
    qed
  qed
qed

subsection \<open>What each scoring block adds\<close>

lemma preferenceRule_fst:
  "fst (preferenceRule p r acc) = fst acc + (if route_type r = prefMap p then 30 else 0)"
  by (cases acc) (simp add: preferenceRule_def)

lemma rainSnowRule_fst:
  "fst (rainSnowRule w r acc) = fst acc +
     (if isRaining w \<or> isSnowing w
      then restSpotCount (comfort r) * 10
           + (if sidewalkCoverage (safety r) = Continuous then 20 else 0)
           - (if route_type r = Fastest then 15 else 0)
      else 0)"
  by (cases acc) (simp add: rainSnowRule_def Let_def)

lemma hotWeatherRule_fst:
  "fst (hotWeatherRule w m r acc) = fst acc +
     (if isHotWeather w m
      then shadePercent (comfort r) * 0.4
           + (if restSpotCount (comfort r) \<ge> 2 then 20 else 0)
           + (if route_type r = Comfortable \<or> route_type r = Scenic then 15 else 0)
      else 0)"
  by (cases acc) (simp add: hotWeatherRule_def Let_def)

lemma coldWeatherRule_fst:
  "fst (coldWeatherRule w r acc) = fst acc +
     (if isColdWeather w
      then (if route_type r = Fastest then 25 else 0) - (if route_type r = Scenic then 10 else 0)
      else 0)"
  by (cases acc) (simp add: coldWeatherRule_def Let_def)

lemma windyRule_fst:
  "fst (windyRule w r acc) = fst acc +
     (if isWindy w
      then (if route_type r = Comfortable then 15 else 0)
           - (if route_type r = Scenic then 10 else 0)
      else 0)"
  by (cases acc) (simp add: windyRule_def Let_def)

lemma darkRule_fst:
  "fst (darkRule tc r acc) = fst acc +
     (if isDark tc
      then (if lightingLevel (safety r) = WellLit then 45
            else if lightingLevel (safety r) = Mixed then 10 else - 20)
           + (if nightFriendly r then 30 else 0)
      else 0)"
  by (cases acc) (simp add: darkRule_def Let_def)

lemma lateNightRule_fst:
  "fst (lateNightRule tc r acc) = fst acc +
     (if isLateNight tc
      then (if route_type r = Safest then 35 else 0) - (if route_type r = Scenic then 25 else 0)
      else 0)"
  by (cases acc) (simp add: lateNightRule_def Let_def)

lemma rushHourRule_fst:
  "fst (rushHourRule tc r acc) = fst acc +
     (if isRushHour tc
      then (if sidewalkCoverage (safety r) = Continuous then 20 else 0)
           - (if crossingCount (safety r) > 4 then 10 else 0)
      else 0)"
  by (cases acc) (simp add: rushHourRule_def Let_def)

lemma middayRule_fst:
  "fst (middayRule w tc r acc) = fst acc +
     (if isMidDay tc \<and> (case w of None \<Rightarrow> False | Some wd \<Rightarrow> temp (current wd) > 75)
      then shadePercent (comfort r) * 0.3 else 0)"
  by (cases acc) (simp add: middayRule_def Let_def)

lemma weekendRule_fst:
  "fst (weekendRule w tc r acc) = fst acc +
     (if isWeekend tc \<and> \<not> isDark tc \<and> \<not> isRaining w \<and> \<not> isColdWeather w
      then (if route_type r = Scenic \<or> route_type r = Comfortable then 15 else 0)
      else 0)"
  by (cases acc) (simp add: weekendRule_def)

lemma safetyBonusRule_fst:
  "fst (safetyBonusRule r acc) = fst acc +
     (if sidewalkCoverage (safety r) = Continuous then 15 else 0)
     + (if crossingCount (safety r) \<le> 3 then 10 else 0)"
  by (cases acc) (simp add: safetyBonusRule_def Let_def)

lemma longRouteRule_fst:
  "fst (longRouteRule rl r acc) = fst acc -
     (if duration r > avgDuration rl * 1.3 then 10 else 0)"
  by (cases acc) (simp add: longRouteRule_def)

lemmas rule_fst =
  preferenceRule_fst rainSnowRule_fst hotWeatherRule_fst coldWeatherRule_fst windyRule_fst
  darkRule_fst lateNightRule_fst rushHourRule_fst middayRule_fst weekendRule_fst
  safetyBonusRule_fst longRouteRule_fst

text \<open>The score of a route is the sum of what the twelve blocks add.\<close>

lemma score_scoreRoute:
  "score (scoreRoute rl p w m tc r) =
     (if route_type r = prefMap p then 30 else 0)
   + (if isRaining w \<or> isSnowing w
      then restSpotCount (comfort r) * 10
           + (if sidewalkCoverage (safety r) = Continuous then 20 else 0)
           - (if route_type r = Fastest then 15 else 0)
      else 0)
   + (if isHotWeather w m
      then shadePercent (comfort r) * 0.4
           + (if restSpotCount (comfort r) \<ge> 2 then 20 else 0)
           + (if route_type r = Comfortable \<or> route_type r = Scenic then 15 else 0)
      else 0)
   + (if isColdWeather w
      then (if route_type r = Fastest then 25 else 0) - (if route_type r = Scenic then 10 else 0)
      else 0)
   + (if isWindy w
      then (if route_type r = Comfortable then 15 else 0)
           - (if route_type r = Scenic then 10 else 0)
      else 0)
   + (if isDark tc
      then (if lightingLevel (safety r) = WellLit then 45
            else if lightingLevel (safety r) = Mixed then 10 else - 20)
           + (if nightFriendly r then 30 else 0)
      else 0)
   + (if isLateNight tc
      then (if route_type r = Safest then 35 else 0) - (if route_type r = Scenic then 25 else 0)
      else 0)
   + (if isRushHour tc
      then (if sidewalkCoverage (safety r) = Continuous then 20 else 0)
           - (if crossingCount (safety r) > 4 then 10 else 0)
      else 0)
   + (if isMidDay tc \<and> (case w of None \<Rightarrow> False | Some wd \<Rightarrow> temp (current wd) > 75)
      then shadePercent (comfort r) * 0.3 else 0)
   + (if isWeekend tc \<and> \<not> isDark tc \<and> \<not> isRaining w \<and> \<not> isColdWeather w
      then (if route_type r = Scenic \<or> route_type r = Comfortable then 15 else 0)
      else 0)
   + (if sidewalkCoverage (safety r) = Continuous then 15 else 0)
   + (if crossingCount (safety r) \<le> 3 then 10 else 0)
   - (if duration r > avgDuration rl * 1.3 then 10 else 0)"
  unfolding scoreRoute_def Let_def
  by (simp only: rule_fst ScoredRoute.simps fst_conv add_0)

lemma sr_route_scoreRoute [simp]: "sr_route (scoreRoute rl p w m tc r) = r"
  by (simp add: scoreRoute_def Let_def)

lemma foldl_duration: "foldl (\<lambda>a r. a + duration r) z rl = z + sum_list (map duration rl)"
  by (induction rl arbitrary: z) simp_all

lemma avgDuration_mean: "avgDuration rl = sum_list (map duration rl) / real (length rl)"
  by (simp add: avgDuration_def foldl_duration)

lemma avgDuration_cong:
  "map duration rl' = map duration rl \<Longrightarrow> avgDuration rl' = avgDuration rl"
  unfolding avgDuration_mean by (metis length_map)

lemma no_weather_flags [simp]:
  "isRaining None = False" "isSnowing None = False" "isColdWeather None = False"
  "isWindy None = False" "isHotWeather None m = (5 \<le> m \<and> m \<le> 8)"
  by (simp_all add: isRaining_def isSnowing_def isColdWeather_def isWindy_def isHotWeather_def)

subsection \<open>The recommendation\<close>

lemma sortedRoutes_Nil_iff: "sortedRoutes rl p w m tc = [] \<longleftrightarrow> rl = []"
  by (simp add: sortedRoutes_def scoredRoutes_def sortBy_Nil_iff)

lemma sortedRoutes_hd:
  assumes "rl \<noteq> []"
  shows "\<exists>i < length rl. hd (sortedRoutes rl p w m tc) = scoreRoute rl p w m tc (rl ! i) \<and>
     (\<forall>j < length rl. score (scoreRoute rl p w m tc (rl ! j))
                        \<le> score (scoreRoute rl p w m tc (rl ! i))) \<and>
     (\<forall>j < i. score (scoreRoute rl p w m tc (rl ! j))
                < score (scoreRoute rl p w m tc (rl ! i)))"
proof -
  let ?xs = "scoredRoutes rl p w m tc"
  have ne: "?xs \<noteq> []" using assms by (simp add: scoredRoutes_def)
  have len: "length ?xs = length rl" by (simp add: scoredRoutes_def)
  have nth: "\<And>j. j < length rl \<Longrightarrow> ?xs ! j = scoreRoute rl p w m tc (rl ! j)"
    by (simp add: scoredRoutes_def)
  from hd_sortBy_first_max [OF ne] obtain i where i: "i < length ?xs"
    "hd (sortBy byScoreDesc ?xs) = ?xs ! i"
    "\<forall>j < length ?xs. score (?xs ! j) \<le> score (?xs ! i)"
    "\<forall>j < i. score (?xs ! j) < score (?xs ! i)"
    by blast
  show ?thesis
  proof (intro exI [of _ i] conjI allI impI)
    show "i < length rl" using i(1) len by simp
    show "hd (sortedRoutes rl p w m tc) = scoreRoute rl p w m tc (rl ! i)"
      using i(1,2) len nth by (simp add: sortedRoutes_def)
  next
    fix j assume "j < length rl"
    then show "score (scoreRoute rl p w m tc (rl ! j)) \<le> score (scoreRoute rl p w m tc (rl ! i))"
      using i(1,3) len nth by metis
  next
    fix j assume "j < i"
    then show "score (scoreRoute rl p w m tc (rl ! j)) < score (scoreRoute rl p w m tc (rl ! i))"
      using i(1,4) len nth by (metis order.strict_trans)
  qed
qed

lemma getSmartRecommendation_eq:
  "rl \<noteq> [] \<Longrightarrow>
   getSmartRecommendation n rl p w m al tc =
     Some \<lparr>routeId = route_id (sr_route (hd (sortedRoutes rl p w m tc))),
           routeType = route_type (sr_route (hd (sortedRoutes rl p w m tc))),
           reason = recommendationReason n w m al tc
                      (reasons (hd (sortedRoutes rl p w m tc)))\<rparr>"
  by (cases "sortedRoutes rl p w m tc")
     (simp_all add: getSmartRecommendation_def sortedRoutes_Nil_iff)

lemma getSmartRecommendation_Nil: "getSmartRecommendation n [] p w m al tc = None"
  by (simp add: getSmartRecommendation_def)

subsection \<open>The reason cascade, branch by branch\<close>

lemmas emoji_defs =
  emoji_rain_cloud_def emoji_snowflake_def emoji_sun_def emoji_cold_face_def emoji_wind_def
  emoji_moon_def emoji_walker_def emoji_tree_def emoji_warning_def emoji_star_def

lemma reason_rain_iff:
  "recommendationReason n w m al tc rs = emoji_rain_cloud @ '' Best for rainy weather''
     \<longleftrightarrow> isRaining w"
  by (simp add: recommendationReason_def emoji_defs)

lemma reason_snow_iff:
  "recommendationReason n w m al tc rs = emoji_snowflake @ '' Safest in snow''
     \<longleftrightarrow> \<not> isRaining w \<and> isSnowing w"
  by (simp add: recommendationReason_def emoji_defs)

lemma reason_heat:
  "recommendationReason n w m al tc rs
     = emoji_sun @ '' Best for '' @ tempText n w @ degree_sign @ ''F heat''
   \<Longrightarrow> isHotWeather w m \<and> ''good shade coverage'' \<in> set rs"
  by (simp add: recommendationReason_def emoji_defs split: if_splits)

lemma reason_cold:
  "recommendationReason n w m al tc rs
     = emoji_cold_face @ '' Quickest in '' @ tempText n w @ degree_sign @ ''F cold''
   \<Longrightarrow> isColdWeather w \<and> ''shorter exposure time'' \<in> set rs"
  by (simp add: recommendationReason_def emoji_defs split: if_splits)

lemma reason_wind:
  "recommendationReason n w m al tc rs = emoji_wind @ '' Wind-protected route''
   \<Longrightarrow> isWindy w \<and> ''wind-protected'' \<in> set rs"
  by (simp add: recommendationReason_def emoji_defs split: if_splits)

lemma reason_dark:
  "recommendationReason n w m al tc rs = emoji_moon @ '' Best for '' @ displayTime tc @ '' walk''
   \<Longrightarrow> isDark tc \<and> ''well-lit for dark hours'' \<in> set rs"
  by (simp add: recommendationReason_def emoji_defs split: if_splits)

lemma reason_late_night:
  "recommendationReason n w m al tc rs = emoji_moon @ '' Safest for late night''
   \<Longrightarrow> isLateNight tc \<and> ''safest for late night'' \<in> set rs"
  by (simp add: recommendationReason_def emoji_defs split: if_splits)

lemma reason_rush_hour:
  "recommendationReason n w m al tc rs = emoji_walker @ '' Best for rush hour''
   \<Longrightarrow> isRushHour tc \<and> ''wide sidewalks for rush hour'' \<in> set rs"
  by (simp add: recommendationReason_def emoji_defs split: if_splits)

lemma reason_weekend:
  "recommendationReason n w m al tc rs = emoji_tree @ '' Great for weekend walk''
   \<Longrightarrow> isWeekend tc \<and> ''nice for weekend stroll'' \<in> set rs"
  by (simp add: recommendationReason_def emoji_defs split: if_splits)

lemma reason_preference:
  "recommendationReason n w m al tc rs = emoji_star @ '' Recommended for you''
   \<Longrightarrow> ''matches your preference'' \<in> set rs"
  by (simp add: recommendationReason_def emoji_defs split: if_splits)

subsection \<open>The mock weather\<close>

lemma take2_hourly_mock:
  "take 2 (hourly (mockWeather now)) = map (\<lambda>i.
        \<lparr>h_time = now + real i * 3600000, h_temp = 72 - real i, h_condition = Clear,
         h_description = ''clear sky'', h_icon = (if i < 6 then ''01d'' else ''01n''),
         precipProbability = 10, h_precipitation = 0\<rparr>) [0, 1]"
  by (simp add: mockWeather_def take_map upt_rec_numeral)

lemma rainSoon_mock: "rainSoon (mockWeather now) = None"
  unfolding rainSoon_def take2_hourly_mock by simp

lemma no_storm_mock:
  "list_ex (\<lambda>h. h_condition h = Thunderstorm) (take 3 (hourly (mockWeather now))) = False"
  by (auto simp: mockWeather_def list_ex_iff dest!: in_set_takeD)

lemma current_mock:
  "current (mockWeather now) =
     \<lparr>temp = 72, feelsLike = 70, condition = Clear, description = ''clear sky'', icon = ''01d'',
      precipitation = 0, humidity = 45, windSpeed = 8, uvIndex = 5, visibility = 10000\<rparr>"
  by (simp add: mockWeather_def)

lemma generateAlerts_mock: "generateAlerts now (mockWeather now) = []"
  by (simp add: generateAlerts_def rainSoon_mock no_storm_mock current_mock)

lemma tags_mock:
  "getRouteWeatherTags (Some (mockWeather now)) = [emoji_sun @ '' Great walking weather'']"
  by (simp add: getRouteWeatherTags_def current_mock)

subsection \<open>The routes fetchRoutes stores\<close>

lemma routeProfiles_nth:
  "p_type (routeProfiles ! 1) = Safest" "multiplier (routeProfiles ! 1) = 1.1"
  "p_type (routeProfiles ! 2) = Comfortable" "multiplier (routeProfiles ! 2) = 1.15"
  "p_type (routeProfiles ! Suc 0) = Safest" "multiplier (routeProfiles ! Suc 0) = 1.1"
  by (simp_all add: routeProfiles_def)

lemma ensureThreeRoutes_three: "3 \<le> length rs \<Longrightarrow> ensureThreeRoutes rs = Some rs"
  by (subst ensureThreeRoutes.simps) simp

lemma ensureThreeRoutes_two:
  "ensureThreeRoutes [a, b] = Some [a, b, synthesizeRoute a 2 (routeProfiles ! 2)]"
  by (subst ensureThreeRoutes.simps) (simp add: ensureThreeRoutes_three numeral_2_eq_2)

lemma ensureThreeRoutes_one:
  "ensureThreeRoutes [a] =
     Some [a, synthesizeRoute a 1 (routeProfiles ! 1), synthesizeRoute a 2 (routeProfiles ! 2)]"
  by (subst ensureThreeRoutes.simps) (simp add: ensureThreeRoutes_two)

lemma transformRoutes_length [simp]: "length (transformRoutes raws) = length raws"
  by (simp add: transformRoutes_def)

lemma transformRoutes_nth:
  "i < length raws \<Longrightarrow> transformRoutes raws ! i = transformRoute (raws ! i) i"
  by (simp add: transformRoutes_def nth_enumerate_eq)

lemma transformRoute_type [simp]: "route_type (transformRoute raw i) = typeOfIndex i"
  by (simp add: transformRoute_def Let_def)

lemma transformRoute_measures [simp]:
  "duration (transformRoute raw i) = route_duration raw"
  "distance (transformRoute raw i) = route_distance raw"
  by (simp_all add: transformRoute_def Let_def)

lemma typeOfIndex_012 [simp]:
  "typeOfIndex 0 = Fastest" "typeOfIndex 1 = Safest" "typeOfIndex 2 = Comfortable"
  "typeOfIndex (Suc 0) = Safest" "typeOfIndex (Suc (Suc 0)) = Comfortable"
  by (simp_all add: typeOfIndex_def types_def)

lemma transformRoutes_one: "transformRoutes [a] = [transformRoute a 0]"
  by (simp add: transformRoutes_def)

lemma transformRoutes_two: "transformRoutes [a, b] = [transformRoute a 0, transformRoute b 1]"
  by (simp add: transformRoutes_def)

lemma synthesizeRoute_fields [simp]:
  "route_type (synthesizeRoute a i pr) = p_type pr"
  "duration (synthesizeRoute a i pr) = duration a * multiplier pr"
  "distance (synthesizeRoute a i pr) = distance a * (1 + real i * 0.05)"
  by (simp_all add: synthesizeRoute_def)

lemma types_of_three:
  assumes "3 \<le> length raws"
  shows "{Fastest, Safest, Comfortable} \<subseteq> route_type ` set (transformRoutes raws)"
proof -
  have "\<And>i. i < 3 \<Longrightarrow> typeOfIndex i \<in> route_type ` set (transformRoutes raws)"
  proof -
    fix i :: nat assume "i < 3"
    with assms have i: "i < length (transformRoutes raws)" by simp
    then have "transformRoutes raws ! i \<in> set (transformRoutes raws)" by (rule nth_mem)
    moreover have "route_type (transformRoutes raws ! i) = typeOfIndex i"
      using i by (simp add: transformRoutes_nth)
    ultimately show "typeOfIndex i \<in> route_type ` set (transformRoutes raws)"
      by (metis imageI)
  qed
  from this [of 0] this [of 1] this [of 2] show ?thesis by simp
qed

lemma fallbackRoutes_types:
  "map route_type (fallbackRoutes orig dest) = [Fastest, Safest, Comfortable]"
  by (simp add: fallbackRoutes_def Let_def)

lemma routesFromResponse_types:
  assumes "routesFromResponse response = Some rs"
  shows "{Fastest, Safest, Comfortable} \<subseteq> route_type ` set rs"
proof -
  from assms obtain raws where raws: "response = Body (Some raws)" "raws \<noteq> []"
    "ensureThreeRoutes (transformRoutes raws) = Some rs"
    by (auto simp: routesFromResponse_def
        split: DirectionsResponse.splits option.splits if_splits)
  consider (one) a0 where "raws = [a0]" | (two) a0 b0 where "raws = [a0, b0]"
    | (more) "3 \<le> length raws"
  proof (cases raws)
    case Nil
    with raws(2) show ?thesis by simp
  next
    case (Cons a0 r1)
    show ?thesis
    proof (cases r1)
      case Nil
      with Cons one show ?thesis by simp
    next
      case (Cons b0 r2)
      show ?thesis
      proof (cases r2)
        case Nil
        with \<open>raws = a0 # r1\<close> \<open>r1 = b0 # r2\<close> two show ?thesis by simp
      next
        case (Cons c0 r3)
        with \<open>raws = a0 # r1\<close> \<open>r1 = b0 # r2\<close> more show ?thesis by simp
      qed
    qed
  qed
  then show ?thesis
  proof cases
    case one
    with raws(3) show ?thesis
      by (auto simp: transformRoutes_one ensureThreeRoutes_one routeProfiles_nth)
  next
    case two
    with raws(3) show ?thesis
      by (auto simp: transformRoutes_two ensureThreeRoutes_two routeProfiles_nth)
  next
    case more
    with raws(3) have "rs = transformRoutes raws"
      by (simp add: ensureThreeRoutes_three)
    with more show ?thesis by (simp only: types_of_three)
  qed
qed

lemma fetchRoutes_routes:
  "origin s = Some orig \<Longrightarrow> destination s = Some dest \<Longrightarrow>
   routes (fetchRoutes s mode response) =
     (case routesFromResponse response of Some rs \<Rightarrow> rs | None \<Rightarrow> fallbackRoutes orig dest)"
  by (simp add: fetchRoutes_def Let_def split: option.splits)

subsection \<open>The example inputs, evaluated\<close>

lemmas rule_defs =
  preferenceRule_def rainSnowRule_def hotWeatherRule_def coldWeatherRule_def windyRule_def
  darkRule_def lateNightRule_def rushHourRule_def middayRule_def weekendRule_def
  safetyBonusRule_def longRouteRule_def

lemmas flag_defs =
  isRaining_def isSnowing_def isHotWeather_def isColdWeather_def isWindy_def
  hasWeatherAlerts_def isMidDay_def isLateNight_def

lemma show_nat_small:
  "show_nat 0 = ''0''" "show_nat (Suc 0) = ''1''" "show_nat 1 = ''1''" "show_nat 2 = ''2''"
  "show_nat 3 = ''3''" "show_nat 4 = ''4''"
  by (simp_all add: show_nat.simps)

lemma count_example: "countCrossings (firstLegSteps example_raw_route) = 4"
  by (simp add: countCrossings_def firstLegSteps_def example_raw_route_def example_step_def)

lemma example_state_ends:
  "origin example_state = Some example_origin"
  "destination example_state = Some DEFAULT_DESTINATION"
  by (simp_all add: example_state_def initialRouteState_def)

lemma example_fastest_value:
  "example_fastest =
     \<lparr>route_id = ''route-0'', route_type = Fastest, title = ''Fastest Route'',
      distance = 1000, duration = 720,
      geometry = [(- 73.9965, 40.7295), (- 73.9857, 40.6944)],
      steps = stepsWithComfort example_raw_route,
      tags = [''Fastest'', ''Direct route''], nightFriendly = False,
      safety = \<lparr>lighting = ''Mixed lighting, some darker blocks'', lightingLevel = Mixed,
                 crossings = ''4 major intersections'', crossingCount = 4,
                 sidewalks = ''Standard sidewalk coverage'', sidewalkCoverage = Partial,
                 busyRoads = 2\<rparr>,
      comfort = \<lparr>hills = ''Direct route, may include hills'', hillLevel = SomeHills,
                  shade = ''Limited shade (~30%)'', shadePercent = 30,
                  restSpots = ''Few rest areas'', restSpotCount = 1, restSpotTypes = [Cafe]\<rparr>\<rparr>"
proof -
  have ch: "analyzeRouteCharacteristics example_raw_route 0 = characteristics 4 Fastest"
    by (simp add: analyzeRouteCharacteristics_def count_example)
  show ?thesis
    unfolding example_fastest_def transformRoute_def Let_def ch
    by (simp add: show_nat.simps example_raw_route_def)
qed

lemma example_safest_fields:
  "route_id example_safest = ''route-1''"
  "route_type example_safest = Safest"
  "nightFriendly example_safest"
  "duration example_safest = 792"
  "lightingLevel (safety example_safest) = WellLit"
  "sidewalkCoverage (safety example_safest) = Continuous"
  "crossingCount (safety example_safest) = 3"
  "shadePercent (comfort example_safest) = 60"
  "restSpotCount (comfort example_safest) = 3"
  by (simp_all add: example_safest_def synthesizeRoute_def routeProfiles_def show_nat_small
      example_fastest_value)

lemma avg_example: "avgDuration example_routes = 780"
  by (simp add: avgDuration_def example_routes_def example_safest_def example_comfortable_def
      synthesizeRoute_def routeProfiles_def example_fastest_value)

lemma sorted_example_night:
  "map (\<lambda>s. (route_id (sr_route s), route_type (sr_route s), score s, reasons s))
     (sortedRoutes example_routes Safe None 0 example_night) =
   [(''route-1'', Safest, 130,
       [''matches your preference'', ''well-lit for dark hours'', ''night-friendly'',
        ''fewer crossings'']),
    (''route-2'', Comfortable, 100,
       [''well-lit for dark hours'', ''night-friendly'', ''fewer crossings'']),
    (''route-0'', Fastest, 10, [])]"
  unfolding sortedRoutes_def scoredRoutes_def scoreRoute_def Let_def avg_example rule_defs
  by (simp add: example_routes_def example_safest_def example_comfortable_def
      example_fastest_value synthesizeRoute_def routeProfiles_def
      example_night_def flag_defs byScoreDesc_def show_nat_small)

lemma recommend_example_night:
  "getSmartRecommendation example_numToString example_routes Safe None 0 [] example_night =
     Some \<lparr>routeId = ''route-1'', routeType = Safest,
           reason = emoji_moon @ '' Best for 9:30 PM walk''\<rparr>"
proof -
  have ne: "example_routes \<noteq> []" by (simp add: example_routes_def)
  obtain best rest where br: "sortedRoutes example_routes Safe None 0 example_night = best # rest"
    using sorted_example_night
    by (cases "sortedRoutes example_routes Safe None 0 example_night") auto
  with sorted_example_night have b: "route_id (sr_route best) = ''route-1''"
    "route_type (sr_route best) = Safest"
    "reasons best = [''matches your preference'', ''well-lit for dark hours'',
                     ''night-friendly'', ''fewer crossings'']"
    by simp_all
  show ?thesis
    unfolding getSmartRecommendation_eq [OF ne] br list.sel b
    by (simp add: recommendationReason_def flag_defs example_night_def)
qed

lemma sorted_example_afternoon:
  "map (\<lambda>s. (route_id (sr_route s), route_type (sr_route s), score s, reasons s))
     (sortedRoutes example_routes Safe None 0 example_afternoon) =
   [(''route-1'', Safest, 55, [''matches your preference'', ''fewer crossings'']),
    (''route-2'', Comfortable, 25, [''fewer crossings'']),
    (''route-0'', Fastest, 0, [])]"
  unfolding sortedRoutes_def scoredRoutes_def scoreRoute_def Let_def avg_example rule_defs
  by (simp add: example_routes_def example_safest_def example_comfortable_def
      example_fastest_value synthesizeRoute_def routeProfiles_def
      example_afternoon_def flag_defs byScoreDesc_def show_nat_small)

lemma recommend_example_afternoon:
  "getSmartRecommendation example_numToString example_routes Safe None 0 [] example_afternoon =
     Some \<lparr>routeId = ''route-1'', routeType = Safest,
           reason = emoji_star @ '' Recommended for you''\<rparr>"
proof -
  have ne: "example_routes \<noteq> []" by (simp add: example_routes_def)
  obtain best rest where
    br: "sortedRoutes example_routes Safe None 0 example_afternoon = best # rest"
    using sorted_example_afternoon
    by (cases "sortedRoutes example_routes Safe None 0 example_afternoon") auto
  with sorted_example_afternoon have b: "route_id (sr_route best) = ''route-1''"
    "route_type (sr_route best) = Safest"
    "reasons best = [''matches your preference'', ''fewer crossings'']"
    by simp_all
  show ?thesis
    unfolding getSmartRecommendation_eq [OF ne] br list.sel b
    by (simp add: recommendationReason_def flag_defs example_afternoon_def)
qed

lemma example_fastest_scored_rain:
  "scoreRoute [example_fastest] Safe (Some example_rain) 0 example_afternoon example_fastest =
   \<lparr>sr_route = example_fastest, score = - 5, reasons = []\<rparr>"
  unfolding scoreRoute_def Let_def rule_defs
  by (simp add: example_fastest_value example_rain_def example_afternoon_def flag_defs
      avgDuration_def)

subsection \<open>Rounding to a double\<close>

lemma roundHalfEven_error: "\<bar>of_int (roundHalfEven y) - y\<bar> \<le> 1 / 2"
  unfolding roundHalfEven_def Let_def by (auto; linarith)

lemma roundHalfEven_near_int:
  assumes "\<bar>t\<bar> < 1 / 2"
  shows "roundHalfEven (of_int n + t) = n"
proof (cases "0 \<le> t")
  case True
  with assms have f: "\<lfloor>of_int n + t\<rfloor> = n" by linarith
  show ?thesis unfolding roundHalfEven_def Let_def f using assms True by simp
next
  case False
  with assms have f: "\<lfloor>of_int n + t\<rfloor> = n - 1" by linarith
  show ?thesis unfolding roundHalfEven_def Let_def f using assms False by simp
qed

lemma binade_le:
  assumes "x \<noteq> 0" and "\<bar>x\<bar> \<le> 2 ^ 50"
  shows "binade x \<le> 50"
proof -
  have "log 2 \<bar>x\<bar> \<le> log 2 (2 ^ 50)"
    using assms by (subst log_le_cancel_iff) simp_all
  also have "log 2 ((2 :: real) ^ 50) = real 50" by (rule log_pow_cancel) simp_all
  finally have "\<lfloor>log 2 \<bar>x\<bar>\<rfloor> \<le> 50" by linarith
  then show ?thesis by (simp add: binade_def)
qed

lemma fl_error:
  assumes "\<bar>x\<bar> \<le> 2 ^ 50"
  shows "\<bar>fl x - x\<bar> \<le> 1 / 8"
proof (cases "x = 0")
  case True
  then show ?thesis by (simp add: fl_def)
next
  case False
  define q :: real where "q = 2 powr (of_int (binade x) - 52)"
  have qpos: "0 < q" by (simp add: q_def)
  have "of_int (binade x) - 52 \<le> (- 2 :: real)"
    using binade_le [OF False assms] by simp
  then have "q \<le> 2 powr (- 2)"
    unfolding q_def by (intro powr_mono) simp_all
  also have "(2 :: real) powr (- 2) = 1 / 4"
    by (simp add: powr_minus_divide)
  finally have q4: "q \<le> 1 / 4" .
  have "fl x - x = q * (of_int (roundHalfEven (x / q)) - x / q)"
    using False qpos by (simp add: fl_def Let_def q_def [symmetric] algebra_simps)
  then have "\<bar>fl x - x\<bar> = q * \<bar>of_int (roundHalfEven (x / q)) - x / q\<bar>"
    using qpos by (simp add: abs_mult)
  also have "\<dots> \<le> q * (1 / 2)"
    using qpos roundHalfEven_error [of "x / q"] by (intro mult_left_mono) simp_all
  also have "\<dots> \<le> 1 / 8" using q4 by simp
  finally show ?thesis .
qed


text \<open>Closeness of the rounded running sum to the exact one.\<close>

lemma fold_close:
  assumes "\<forall>d \<in> set ds. \<bar>d\<bar> \<le> D"
    and "\<bar>s\<bar> + real (length ds) * (D + 1 / 8) \<le> 2 ^ 50"
  shows "\<bar>foldl (\<lambda>s d. fl (s + d)) s ds - (s + sum_list ds)\<bar> \<le> real (length ds) / 8"
  using assms
proof (induction ds arbitrary: s)
  case Nil
  then show ?case by simp
next
  case (Cons d ds)
  have d: "\<bar>d\<bar> \<le> D" and rest: "\<forall>d \<in> set ds. \<bar>d\<bar> \<le> D"
    using Cons.prems(1) by simp_all
  have D0: "0 \<le> D" using d by linarith
  have len: "0 \<le> real (length ds) * (D + 1 / 8)" using D0 by simp
  have b: "\<bar>s\<bar> + (D + 1 / 8) + real (length ds) * (D + 1 / 8) \<le> 2 ^ 50"
    using Cons.prems(2) by (simp add: algebra_simps add_divide_distrib)
  have "\<bar>s + d\<bar> \<le> 2 ^ 50" using b d len by linarith
  then have e: "\<bar>fl (s + d) - (s + d)\<bar> \<le> 1 / 8" by (rule fl_error)
  then have "\<bar>fl (s + d)\<bar> \<le> \<bar>s\<bar> + D + 1 / 8" using d by linarith
  with b have "\<bar>fl (s + d)\<bar> + real (length ds) * (D + 1 / 8) \<le> 2 ^ 50" by linarith
  from Cons.IH [OF rest this]
  have ih: "\<bar>foldl (\<lambda>s d. fl (s + d)) (fl (s + d)) ds - (fl (s + d) + sum_list ds)\<bar>
          \<le> real (length ds) / 8" .
  define F where "F = foldl (\<lambda>s d. fl (s + d)) (fl (s + d)) ds"
  have l: "real (length (d # ds)) / 8 = 1 / 8 + real (length ds) / 8"
    by (simp add: add_divide_distrib)
  have "\<bar>F - (s + (d + sum_list ds))\<bar> \<le> 1 / 8 + real (length ds) / 8"
    using e ih unfolding F_def [symmetric] by linarith
  then show ?case
    unfolding l by (simp add: F_def)
qed

lemma fl_bound:
  assumes "\<bar>x\<bar> \<le> B" and "B \<le> 2 ^ 50"
  shows "\<bar>fl x\<bar> \<le> B + 1 / 8"
proof -
  from assms have "\<bar>x\<bar> \<le> 2 ^ 50" by linarith
  from fl_error [OF this] assms(1) show ?thesis by linarith
qed

lemma fl_small_constants: "\<bar>fl 0.4\<bar> \<le> 1" "\<bar>fl 0.3\<bar> \<le> 1"
  using fl_bound [of "0.4" "1 / 2"] fl_bound [of "0.3" "1 / 2"] by simp_all

lemma fl_scaled:
  assumes "\<bar>x\<bar> \<le> 10 ^ 12" and "\<bar>c\<bar> \<le> 1"
  shows "\<bar>fl (x * c)\<bar> \<le> 10 ^ 13 + 1"
proof -
  have "\<bar>x * c\<bar> \<le> 10 ^ 12 * 1"
    unfolding abs_mult using assms by (intro mult_mono) simp_all
  then have "\<bar>x * c\<bar> \<le> 10 ^ 12" by simp
  from fl_bound [OF this] show ?thesis by simp
qed

lemma fl_times_ten:
  assumes "\<bar>x\<bar> \<le> 10 ^ 12"
  shows "\<bar>fl (x * 10)\<bar> \<le> 10 ^ 13 + 1"
proof -
  have "\<bar>x * 10\<bar> \<le> 10 ^ 13" using assms by simp
  from fl_bound [OF this] show ?thesis by simp
qed

lemmas inc_defs =
  preferenceInc_def rainSnowInc_def hotWeatherInc_def coldWeatherInc_def windyInc_def
  darkInc_def lateNightInc_def rushHourInc_def middayInc_def weekendInc_def
  safetyBonusInc_def longRouteInc_def

lemma fixed_increments_bounded:
  "\<forall>d \<in> set (preferenceInc p r). \<bar>d\<bar> \<le> 10 ^ 13 + 1"
  "\<forall>d \<in> set (coldWeatherInc w r). \<bar>d\<bar> \<le> 10 ^ 13 + 1"
  "\<forall>d \<in> set (windyInc w r). \<bar>d\<bar> \<le> 10 ^ 13 + 1"
  "\<forall>d \<in> set (darkInc tc r). \<bar>d\<bar> \<le> 10 ^ 13 + 1"
  "\<forall>d \<in> set (lateNightInc tc r). \<bar>d\<bar> \<le> 10 ^ 13 + 1"
  "\<forall>d \<in> set (rushHourInc tc r). \<bar>d\<bar> \<le> 10 ^ 13 + 1"
  "\<forall>d \<in> set (weekendInc w tc r). \<bar>d\<bar> \<le> 10 ^ 13 + 1"
  "\<forall>d \<in> set (safetyBonusInc r). \<bar>d\<bar> \<le> 10 ^ 13 + 1"
  "\<forall>d \<in> set (longRouteInc rnd rl r). \<bar>d\<bar> \<le> 10 ^ 13 + 1"
  by (auto simp: inc_defs split: if_splits)

lemma rainSnowInc_bounded:
  "\<bar>restSpotCount (comfort r)\<bar> \<le> 10 ^ 12 \<Longrightarrow>
   \<forall>d \<in> set (rainSnowInc fl w r). \<bar>d\<bar> \<le> 10 ^ 13 + 1"
  using fl_times_ten [of "restSpotCount (comfort r)"]
  by (auto simp: rainSnowInc_def split: if_splits)

lemma hotWeatherInc_bounded:
  "\<bar>shadePercent (comfort r)\<bar> \<le> 10 ^ 12 \<Longrightarrow>
   \<forall>d \<in> set (hotWeatherInc fl w m r). \<bar>d\<bar> \<le> 10 ^ 13 + 1"
proof -
  assume "\<bar>shadePercent (comfort r)\<bar> \<le> 10 ^ 12"
  from fl_scaled [OF this fl_small_constants(1)]
  have "\<bar>fl (shadePercent (comfort r) * fl 0.4)\<bar> \<le> 10 ^ 13 + 1" .
  moreover have "(if shadePercent (comfort r) \<noteq> 0 then shadePercent (comfort r) else 0)
                   = shadePercent (comfort r)"
    by simp
  ultimately show ?thesis
    unfolding hotWeatherInc_def Let_def by (auto split: if_splits)
qed

lemma middayInc_bounded:
  "\<bar>shadePercent (comfort r)\<bar> \<le> 10 ^ 12 \<Longrightarrow>
   \<forall>d \<in> set (middayInc fl w tc r). \<bar>d\<bar> \<le> 10 ^ 13 + 1"
  using fl_scaled [of "shadePercent (comfort r)" "fl 0.3"] fl_small_constants(2)
  by (auto simp: middayInc_def split: if_splits)

lemma scoreIncrements_bounded:
  assumes "\<bar>restSpotCount (comfort r)\<bar> \<le> 10 ^ 12" and "\<bar>shadePercent (comfort r)\<bar> \<le> 10 ^ 12"
  shows "\<forall>d \<in> set (scoreIncrements fl rl p w m tc r). \<bar>d\<bar> \<le> 10 ^ 13 + 1"
  unfolding scoreIncrements_def set_append ball_Un
  using fixed_increments_bounded rainSnowInc_bounded [OF assms(1)]
    hotWeatherInc_bounded [OF assms(2)] middayInc_bounded [OF assms(2)]
  by (intro conjI) blast+

lemma increments_lengths:
  "length (preferenceInc p r) \<le> 1" "length (rainSnowInc rnd w r) \<le> 3"
  "length (hotWeatherInc rnd w m r) \<le> 3" "length (coldWeatherInc w r) \<le> 2"
  "length (windyInc w r) \<le> 2" "length (darkInc tc r) \<le> 2"
  "length (lateNightInc tc r) \<le> 2" "length (rushHourInc tc r) \<le> 2"
  "length (middayInc rnd w tc r) \<le> 1" "length (weekendInc w tc r) \<le> 1"
  "length (safetyBonusInc r) \<le> 2" "length (longRouteInc rnd rl r) \<le> 1"
  by (simp_all add: inc_defs Let_def)

lemma scoreIncrements_length: "length (scoreIncrements rnd rl p w m tc r) \<le> 22"
  unfolding scoreIncrements_def length_append
  using increments_lengths(1) [of p r] increments_lengths(2) [of rnd w r]
    increments_lengths(3) [of rnd w m r] increments_lengths(4) [of w r]
    increments_lengths(5) [of w r] increments_lengths(6) [of tc r]
    increments_lengths(7) [of tc r] increments_lengths(8) [of tc r]
    increments_lengths(9) [of rnd w tc r] increments_lengths(10) [of w tc r]
    increments_lengths(11) [of r] increments_lengths(12) [of rnd rl r]
  by linarith

text \<open>The double score is within 22/8 of the exact sum of its increments.\<close>

lemma scoreDouble_close:
  assumes "\<bar>restSpotCount (comfort r)\<bar> \<le> 10 ^ 12" and "\<bar>shadePercent (comfort r)\<bar> \<le> 10 ^ 12"
  shows "\<bar>scoreDouble rl p w m tc r - sum_list (scoreIncrements fl rl p w m tc r)\<bar> \<le> 22 / 8"
proof -
  let ?ds = "scoreIncrements fl rl p w m tc r"
  have n: "real (length ?ds) \<le> 22"
    using scoreIncrements_length [of fl rl p w m tc r] by simp
  have "real (length ?ds) * (10 ^ 13 + 1 + 1 / 8) \<le> 22 * (10 ^ 13 + 1 + 1 / 8)"
    using n by (intro mult_right_mono) simp_all
  also have "\<dots> \<le> (2 :: real) ^ 50" by simp
  finally have "\<bar>0 :: real\<bar> + real (length ?ds) * (10 ^ 13 + 1 + 1 / 8) \<le> 2 ^ 50" by simp
  from fold_close [OF scoreIncrements_bounded [OF assms] this]
  have "\<bar>foldl (\<lambda>s d. fl (s + d)) 0 ?ds - sum_list ?ds\<bar> \<le> real (length ?ds) / 8"
    by simp
  with n show ?thesis
    unfolding scoreDouble_def scoreWith_def by linarith
qed

lemma avgDurationWith_cong:
  "map duration rl' = map duration rl \<Longrightarrow> avgDurationWith rnd rl' = avgDurationWith rnd rl"
proof -
  assume a: "map duration rl' = map duration rl"
  have f: "foldl (\<lambda>a r. rnd (a + duration r)) z xs = foldl (\<lambda>a d. rnd (a + d)) z (map duration xs)"
    for z xs by (induction xs arbitrary: z) simp_all
  have "length rl' = length rl" using a by (metis length_map)
  then show ?thesis unfolding avgDurationWith_def f a by simp
qed

lemma sum_increments_dark:
  assumes "isDark tc"
    and "lightingLevel (safety r) = WellLit" and "nightFriendly r"
    and "r' = r\<lparr>nightFriendly := False, safety := (safety r)\<lparr>lightingLevel := Dark\<rparr>\<rparr>"
    and "map duration rl' = map duration rl"
  shows "sum_list (scoreIncrements rnd rl p w m tc r)
         = sum_list (scoreIncrements rnd rl' p w m tc r') + 95"
proof -
  have same:
    "preferenceInc p r' = preferenceInc p r" "rainSnowInc rnd w r' = rainSnowInc rnd w r"
    "hotWeatherInc rnd w m r' = hotWeatherInc rnd w m r" "coldWeatherInc w r' = coldWeatherInc w r"
    "windyInc w r' = windyInc w r" "lateNightInc tc r' = lateNightInc tc r"
    "rushHourInc tc r' = rushHourInc tc r" "middayInc rnd w tc r' = middayInc rnd w tc r"
    "weekendInc w tc r' = weekendInc w tc r" "safetyBonusInc r' = safetyBonusInc r"
    by (simp_all add: inc_defs assms(4))
  have long: "longRouteInc rnd rl' r' = longRouteInc rnd rl r"
    by (simp add: longRouteInc_def assms(4) avgDurationWith_cong [OF assms(5)])
  have dark: "darkInc tc r = [45, 30]" "darkInc tc r' = [- 20]"
    using assms(1-3) by (simp_all add: darkInc_def assms(4))
  show ?thesis
    unfolding scoreIncrements_def same long dark by simp
qed

subsection \<open>The two models of the score, and a score that absorbs its increments\<close>

lemma foldl_plus: "foldl (\<lambda>s d. s + d) z ds = z + sum_list ds" for z :: real
  by (induction ds arbitrary: z) simp_all

lemma avgDurationWith_exact: "avgDurationWith (\<lambda>x. x) rl = avgDuration rl"
  by (simp add: avgDurationWith_def avgDuration_def)

lemma sum_increments_exact:
  "sum_list (preferenceInc p r) = (if route_type r = prefMap p then 30 else 0)"
  "sum_list (rainSnowInc (\<lambda>x. x) w r) =
     (if isRaining w \<or> isSnowing w
      then restSpotCount (comfort r) * 10
           + (if sidewalkCoverage (safety r) = Continuous then 20 else 0)
           - (if route_type r = Fastest then 15 else 0)
      else 0)"
  "sum_list (hotWeatherInc (\<lambda>x. x) w m r) =
     (if isHotWeather w m
      then shadePercent (comfort r) * 0.4
           + (if restSpotCount (comfort r) \<ge> 2 then 20 else 0)
           + (if route_type r = Comfortable \<or> route_type r = Scenic then 15 else 0)
      else 0)"
  "sum_list (coldWeatherInc w r) =
     (if isColdWeather w
      then (if route_type r = Fastest then 25 else 0) - (if route_type r = Scenic then 10 else 0)
      else 0)"
  "sum_list (windyInc w r) =
     (if isWindy w
      then (if route_type r = Comfortable then 15 else 0)
           - (if route_type r = Scenic then 10 else 0)
      else 0)"
  "sum_list (darkInc tc r) =
     (if isDark tc
      then (if lightingLevel (safety r) = WellLit then 45
            else if lightingLevel (safety r) = Mixed then 10 else - 20)
           + (if nightFriendly r then 30 else 0)
      else 0)"
  "sum_list (lateNightInc tc r) =
     (if isLateNight tc
      then (if route_type r = Safest then 35 else 0) - (if route_type r = Scenic then 25 else 0)
      else 0)"
  "sum_list (rushHourInc tc r) =
     (if isRushHour tc
      then (if sidewalkCoverage (safety r) = Continuous then 20 else 0)
           - (if crossingCount (safety r) > 4 then 10 else 0)
      else 0)"
  "sum_list (middayInc (\<lambda>x. x) w tc r) =
     (if isMidDay tc \<and> (case w of None \<Rightarrow> False | Some wd \<Rightarrow> temp (current wd) > 75)
      then shadePercent (comfort r) * 0.3 else 0)"
  "sum_list (weekendInc w tc r) =
     (if isWeekend tc \<and> \<not> isDark tc \<and> \<not> isRaining w \<and> \<not> isColdWeather w
      then (if route_type r = Scenic \<or> route_type r = Comfortable then 15 else 0)
      else 0)"
  "sum_list (safetyBonusInc r) =
     (if sidewalkCoverage (safety r) = Continuous then 15 else 0)
     + (if crossingCount (safety r) \<le> 3 then 10 else 0)"
  "sum_list (longRouteInc (\<lambda>x. x) rl r) =
     - (if duration r > avgDuration rl * 1.3 then 10 else 0)"
  by (simp_all add: inc_defs avgDurationWith_exact Let_def)

text \<open>With no rounding, the sum of the increments is the score of the shallow model.\<close>

lemma scoreWith_exact: "scoreWith (\<lambda>x. x) rl p w m tc r = score (scoreRoute rl p w m tc r)"
  unfolding scoreWith_def foldl_plus scoreIncrements_def sum_list_append score_scoreRoute
  by (simp only: sum_increments_exact)

lemma fl_absorb:
  assumes "\<bar>d\<bar> < 1024"
  shows "fl (11529215046068469760 + d) = 11529215046068469760"
proof -
  let ?x = "11529215046068469760 + d"
  have pos: "0 < ?x" and lo: "2 ^ 63 \<le> ?x" and hi: "?x < 2 ^ 64"
    using assms by simp_all
  have "\<lfloor>log 2 ?x\<rfloor> = 63"
    using pos lo hi by (subst floor_log_eq_powr_iff) simp_all
  then have b: "binade ?x = 63"
    using pos by (simp add: binade_def)
  have q: "(2 :: real) powr (of_int 63 - 52) = 2048" by simp
  have "?x / 2048 = of_int 5629499534213120 + d / 2048" by simp
  moreover have "\<bar>d / 2048\<bar> < 1 / 2" using assms by simp
  ultimately have "roundHalfEven (?x / 2048) = 5629499534213120"
    by (simp only: roundHalfEven_near_int)
  then show ?thesis
    using pos unfolding fl_def Let_def b q by simp
qed

lemma fold_absorb:
  "\<forall>d \<in> set ds. \<bar>d\<bar> < 1024 \<Longrightarrow>
   foldl (\<lambda>s d. fl (s + d)) 11529215046068469760 ds = 11529215046068469760"
  by (induction ds) (simp_all add: fl_absorb)

lemma example_crowded_fields:
  "route_type example_crowded = Safest"
  "nightFriendly example_crowded"
  "lightingLevel (safety example_crowded) = WellLit"
  "sidewalkCoverage (safety example_crowded) = Continuous"
  "crossingCount (safety example_crowded) = 3"
  "restSpotCount (comfort example_crowded) = 2 ^ 60"
  by (simp_all add: example_crowded_def example_safest_fields)

lemma example_crowded_increments:
  "\<exists>ds. (\<forall>d \<in> set ds. \<bar>d\<bar> < 1024) \<and>
     scoreIncrements fl rl Fast (Some example_rain) 0 example_night example_crowded
       = fl 11529215046068469760 # ds"
  "\<exists>ds. (\<forall>d \<in> set ds. \<bar>d\<bar> < 1024) \<and>
     scoreIncrements fl rl Fast (Some example_rain) 0 example_night example_crowded_unlit
       = fl 11529215046068469760 # ds"
  by (auto simp: scoreIncrements_def inc_defs flag_defs example_rain_def example_night_def
      example_crowded_unlit_def example_crowded_fields)

lemma example_crowded_scores:
  "scoreDouble rl Fast (Some example_rain) 0 example_night example_crowded
     = 11529215046068469760"
  "scoreDouble rl Fast (Some example_rain) 0 example_night example_crowded_unlit
     = 11529215046068469760"
proof -
  have k: "fl 11529215046068469760 = 11529215046068469760"
    using fl_absorb [of 0] by simp
  from example_crowded_increments(1) [of rl] obtain ds where
    ds: "\<forall>d \<in> set ds. \<bar>d\<bar> < 1024"
    "scoreIncrements fl rl Fast (Some example_rain) 0 example_night example_crowded
       = fl 11529215046068469760 # ds" by blast
  show "scoreDouble rl Fast (Some example_rain) 0 example_night example_crowded
     = 11529215046068469760"
    unfolding scoreDouble_def scoreWith_def ds(2) k
    by (simp add: k fold_absorb [OF ds(1)])
  from example_crowded_increments(2) [of rl] obtain ds' where
    ds': "\<forall>d \<in> set ds'. \<bar>d\<bar> < 1024"
    "scoreIncrements fl rl Fast (Some example_rain) 0 example_night example_crowded_unlit
       = fl 11529215046068469760 # ds'" by blast
  show "scoreDouble rl Fast (Some example_rain) 0 example_night example_crowded_unlit
     = 11529215046068469760"
    unfolding scoreDouble_def scoreWith_def ds'(2) k
    by (simp add: k fold_absorb [OF ds'(1)])
qed

section \<open>The claims\<close>

subsection \<open>C1: one recommendation, drawn from the input\<close>

text \<open>
  Claim C1. For every non-empty route list, any preference, any weather snapshot (present
  or absent) and any time context, \<^verbatim>\<open>getSmartRecommendation\<close> returns one recommendation
  whose route identity and type are those of an element of the list; it returns null
  exactly when the list is empty.
\<close>

theorem recommendation_total:
  "(getSmartRecommendation n rl p w m al tc = None \<longleftrightarrow> rl = []) \<and>
   (rl \<noteq> [] \<longrightarrow>
      (\<exists>rec r. getSmartRecommendation n rl p w m al tc = Some rec \<and> r \<in> set rl \<and>
         routeId rec = route_id r \<and> routeType rec = route_type r))"
proof (cases "rl = []")
  case True
  then show ?thesis by (simp add: getSmartRecommendation_Nil)
next
  case False
  from sortedRoutes_hd [OF False, of p w m tc] obtain i where
    i: "i < length rl" "hd (sortedRoutes rl p w m tc) = scoreRoute rl p w m tc (rl ! i)"
    by blast
  have "rl ! i \<in> set rl" using i(1) by simp
  with False i(2) show ?thesis
    by (auto simp: getSmartRecommendation_eq)
qed

theorem recommendation_total_witness:
  "example_routes \<noteq> [] \<and>
   (\<exists>rec r. getSmartRecommendation example_numToString example_routes Safe None 0 []
              example_night = Some rec \<and>
      r \<in> set example_routes \<and> routeId rec = route_id r \<and> routeType rec = route_type r) \<and>
   getSmartRecommendation example_numToString [] Safe None 0 [] example_night = None"
  using recommendation_total [of example_numToString example_routes Safe None 0 "[]" example_night]
    recommendation_total [of example_numToString "[]" Safe None 0 "[]" example_night]
  by (simp add: example_routes_def)

subsection \<open>C2: the reason cascade\<close>

text \<open>
  Claim C2, as amended. The branches of the reason cascade for heat, cold, wind, darkness,
  late night, rush hour, weekend and preference produce their reason only when their
  contextual condition holds and the reason list of the winning route contains the
  matching tag; without the tag the cascade goes on to a later branch. The branches for
  rain and snow consult no tag: the rain reason is produced exactly when it is raining,
  the snow reason exactly when it is snowing and not raining, whatever the reasons of
  the winning route are.
\<close>

theorem reason_cascade:
  assumes "getSmartRecommendation n rl p w m al tc = Some rec"
  shows "\<exists>best rest. sortedRoutes rl p w m tc = best # rest \<and>
     (reason rec = emoji_rain_cloud @ '' Best for rainy weather'' \<longleftrightarrow> isRaining w) \<and>
     (reason rec = emoji_snowflake @ '' Safest in snow'' \<longleftrightarrow> \<not> isRaining w \<and> isSnowing w) \<and>
     (reason rec = emoji_sun @ '' Best for '' @ tempText n w @ degree_sign @ ''F heat''
        \<longrightarrow> isHotWeather w m \<and> ''good shade coverage'' \<in> set (reasons best)) \<and>
     (reason rec = emoji_cold_face @ '' Quickest in '' @ tempText n w @ degree_sign @ ''F cold''
        \<longrightarrow> isColdWeather w \<and> ''shorter exposure time'' \<in> set (reasons best)) \<and>
     (reason rec = emoji_wind @ '' Wind-protected route''
        \<longrightarrow> isWindy w \<and> ''wind-protected'' \<in> set (reasons best)) \<and>
     (reason rec = emoji_moon @ '' Best for '' @ displayTime tc @ '' walk''
        \<longrightarrow> isDark tc \<and> ''well-lit for dark hours'' \<in> set (reasons best)) \<and>
     (reason rec = emoji_moon @ '' Safest for late night''
        \<longrightarrow> isLateNight tc \<and> ''safest for late night'' \<in> set (reasons best)) \<and>
     (reason rec = emoji_walker @ '' Best for rush hour''
        \<longrightarrow> isRushHour tc \<and> ''wide sidewalks for rush hour'' \<in> set (reasons best)) \<and>
     (reason rec = emoji_tree @ '' Great for weekend walk''
        \<longrightarrow> isWeekend tc \<and> ''nice for weekend stroll'' \<in> set (reasons best)) \<and>
     (reason rec = emoji_star @ '' Recommended for you''
        \<longrightarrow> ''matches your preference'' \<in> set (reasons best))"
proof -
  from assms have ne: "rl \<noteq> []"
    by (auto simp: getSmartRecommendation_Nil)
  then obtain best rest where br: "sortedRoutes rl p w m tc = best # rest"
    by (cases "sortedRoutes rl p w m tc") (simp_all add: sortedRoutes_Nil_iff)
  from assms ne br
  have r: "reason rec = recommendationReason n w m al tc (reasons best)"
    by (auto simp: getSmartRecommendation_eq)
  show ?thesis
  proof (intro exI [of _ best] exI [of _ rest] conjI impI)
    show "sortedRoutes rl p w m tc = best # rest" by (rule br)
  qed (simp_all only: r reason_rain_iff reason_snow_iff, (drule reason_heat reason_cold
        reason_wind reason_dark reason_late_night reason_rush_hour reason_weekend
        reason_preference, simp)+)
qed

text \<open>At night the safest route of the example wins with the darkness reason, and on a
  weekday afternoon with the preference reason; each time its reasons hold the tag.\<close>

theorem reason_cascade_witness:
  "getSmartRecommendation example_numToString example_routes Safe None 0 [] example_night =
     Some \<lparr>routeId = ''route-1'', routeType = Safest,
           reason = emoji_moon @ '' Best for 9:30 PM walk''\<rparr> \<and>
   (\<exists>best rest. sortedRoutes example_routes Safe None 0 example_night = best # rest \<and>
      isDark example_night \<and> ''well-lit for dark hours'' \<in> set (reasons best)) \<and>
   getSmartRecommendation example_numToString example_routes Safe None 0 [] example_afternoon =
     Some \<lparr>routeId = ''route-1'', routeType = Safest,
           reason = emoji_star @ '' Recommended for you''\<rparr> \<and>
   (\<exists>best rest. sortedRoutes example_routes Safe None 0 example_afternoon = best # rest \<and>
      ''matches your preference'' \<in> set (reasons best))"
proof -
  have "\<exists>best rest. sortedRoutes example_routes Safe None 0 example_night = best # rest \<and>
      isDark example_night \<and> ''well-lit for dark hours'' \<in> set (reasons best)"
    using reason_cascade [OF recommend_example_night]
    by (auto simp: example_night_def)
  moreover
  have "\<exists>best rest. sortedRoutes example_routes Safe None 0 example_afternoon = best # rest \<and>
      ''matches your preference'' \<in> set (reasons best)"
    using reason_cascade [OF recommend_example_afternoon]
    by auto
  ultimately show ?thesis
    using recommend_example_night recommend_example_afternoon by simp
qed

text \<open>
  The claim as stated fails for rain: a route set of the fastest route alone, in rain, on
  a weekday afternoon, preference safe. The route wins with an empty reason list, and the
  reason returned is the one for rain.
\<close>

theorem rain_reason_counterexample:
  "map_option reason
     (getSmartRecommendation example_numToString [example_fastest] Safe
        (Some example_rain) 0 [] example_afternoon)
     = Some (emoji_rain_cloud @ '' Best for rainy weather'') \<and>
   map reasons (sortedRoutes [example_fastest] Safe (Some example_rain) 0 example_afternoon)
     = [[]]"
proof -
  have s: "sortedRoutes [example_fastest] Safe (Some example_rain) 0 example_afternoon =
           [\<lparr>sr_route = example_fastest, score = - 5, reasons = []\<rparr>]"
    by (simp add: sortedRoutes_def scoredRoutes_def example_fastest_scored_rain)
  have r: "isRaining (Some example_rain)"
    by (simp add: isRaining_def example_rain_def)
  show ?thesis
    by (simp add: getSmartRecommendation_def s recommendationReason_def r)
qed

subsection \<open>C3: the failure policy of the weather fetch\<close>

text \<open>
  Claim C3, as amended. When no weather credential is configured, \<^verbatim>\<open>fetchWeather\<close> stores
  the fixed clear-weather mock snapshot and no alert, and leaves the error state as it
  was (null from the initial state on). When a credential is configured and the live
  fetch fails (the request throws, or both endpoints answer with a status that is not
  ok), it sets the error state to \<^verbatim>\<open>'Failed to fetch weather data'\<close>, ends loading, and
  leaves the weather snapshot, the alerts and the sun times as they were: no mock
  snapshot is stored.
\<close>

theorem weather_failure_policy:
  "(apiKey = [] \<longrightarrow>
      weather (fetchWeather apiKey now oneCall basic s la lo) = Some (mockWeather now) \<and>
      alerts (fetchWeather apiKey now oneCall basic s la lo) = [] \<and>
      w_error (fetchWeather apiKey now oneCall basic s la lo) = w_error s \<and>
      w_isLoading (fetchWeather apiKey now oneCall basic s la lo) = w_isLoading s \<and>
      sunTimes (fetchWeather apiKey now oneCall basic s la lo) = sunTimes s) \<and>
   (apiKey \<noteq> [] \<and>
    (oneCall = Throws \<or> (oneCall = NotOk \<and> (basic = Throws \<or> basic = NotOk))) \<longrightarrow>
      w_error (fetchWeather apiKey now oneCall basic s la lo)
        = Some ''Failed to fetch weather data'' \<and>
      weather (fetchWeather apiKey now oneCall basic s la lo) = weather s \<and>
      alerts (fetchWeather apiKey now oneCall basic s la lo) = alerts s \<and>
      sunTimes (fetchWeather apiKey now oneCall basic s la lo) = sunTimes s \<and>
      w_isLoading (fetchWeather apiKey now oneCall basic s la lo) = False)"
  by (auto simp: fetchWeather_def generateAlerts_mock weatherFetchFailed_def)

theorem weather_failure_policy_witness:
  "weather (fetchWeather [] 0 Throws Throws initialWeatherState 0 0) = Some (mockWeather 0) \<and>
   w_error (fetchWeather [] 0 Throws Throws initialWeatherState 0 0) = None \<and>
   ''key'' \<noteq> [] \<and>
   w_error (fetchWeather ''key'' 0 NotOk NotOk initialWeatherState 0 0)
     = Some ''Failed to fetch weather data'' \<and>
   weather (fetchWeather ''key'' 0 NotOk NotOk initialWeatherState 0 0) = None"
  using weather_failure_policy [of "[]" 0 Throws Throws initialWeatherState 0 0]
    weather_failure_policy [of "''key''" 0 NotOk NotOk initialWeatherState 0 0]
  by (simp add: initialWeatherState_def)

text \<open>
  The claim as stated fails when the live fetch fails: from the initial state, with a
  credential and a request that throws, the error state is set and there is no snapshot.
\<close>

theorem weather_failure_counterexample:
  "w_error (fetchWeather ''key'' 0 Throws Throws initialWeatherState 0 0)
     = Some ''Failed to fetch weather data'' \<and>
   weather (fetchWeather ''key'' 0 Throws Throws initialWeatherState 0 0) = None"
  by (simp add: fetchWeather_def weatherFetchFailed_def initialWeatherState_def)

subsection \<open>C4: the score without a weather snapshot\<close>

text \<open>
  Claim C4, as amended. Without a weather snapshot the rain and snow, cold and windy
  rules and the midday rule add nothing to a score. The hot-weather rule adds its
  bonus when the current month is June to September (\<^verbatim>\<open>getMonth()\<close> from 5 to 8). So the
  score of a route is the sum of the preference match, the time-conditioned rules, the
  context-free bonuses and the length penalty, plus the hot-weather bonus in those
  four months.
\<close>

theorem score_without_weather:
  "score (scoreRoute rl p None m tc r) =
     spec_scoreWithoutWeather rl p tc r + (if 5 \<le> m \<and> m \<le> 8 then hotWeatherBonus r else 0)"
  unfolding score_scoreRoute spec_scoreWithoutWeather_def spec_preferenceMatch_def
    spec_timeRules_def spec_contextFree_def spec_lengthPenalty_def hotWeatherBonus_def
    avgDuration_mean isLateNight_def isMidDay_def
  by (cases "lightingLevel (safety r)") (simp_all add: mult.commute)

theorem score_without_weather_witness:
  "score (scoreRoute example_routes Safe None 0 example_afternoon example_safest) = 55 \<and>
   score (scoreRoute example_routes Safe None 7 example_afternoon example_safest) = 99"
  using score_without_weather [of example_routes Safe 0 example_afternoon example_safest]
    score_without_weather [of example_routes Safe 7 example_afternoon example_safest]
  by (simp add: spec_scoreWithoutWeather_def spec_preferenceMatch_def
      spec_timeRules_def spec_contextFree_def spec_lengthPenalty_def hotWeatherBonus_def
      example_safest_fields avg_example avgDuration_mean [symmetric] example_afternoon_def)

text \<open>
  The claim as stated fails in July: without a weather snapshot the safest route of the
  example scores 99, and the four components the claim names sum to 55.
\<close>

theorem summer_heat_counterexample:
  "score (scoreRoute example_routes Safe None 6 example_afternoon example_safest) = 99 \<and>
   spec_scoreWithoutWeather example_routes Safe example_afternoon example_safest = 55 \<and>
   score (scoreRoute example_routes Safe None 6 example_afternoon example_safest)
     \<noteq> spec_scoreWithoutWeather example_routes Safe example_afternoon example_safest"
  by (simp add: score_scoreRoute spec_scoreWithoutWeather_def spec_preferenceMatch_def
      spec_timeRules_def spec_contextFree_def spec_lengthPenalty_def
      example_safest_fields avg_example
      avgDuration_mean [symmetric] example_afternoon_def isLateNight_def isMidDay_def)

subsection \<open>C5: the crossing count by route type\<close>

text \<open>
  Claim C5, as amended. With \<open>turns\<close> the number of maneuvers of kind \<^verbatim>\<open>'turn'\<close> or
  \<^verbatim>\<open>'end of road'\<close> in the step list of the raw path, the crossing count of the safety
  profile produced for the type \<^verbatim>\<open>types[index % 4]\<close> is \<open>turns\<close> for fastest and for
  comfortable, \<open>max 1 (turns - 1)\<close> for safest, and \<open>turns + 1\<close> for scenic.
\<close>

theorem crossing_count_by_type:
  "crossingCount (safety (transformRoute route index)) =
     crossingCount (c_safety (analyzeRouteCharacteristics route index)) \<and>
   crossingCount (c_safety (analyzeRouteCharacteristics route index)) =
     (let turns = real (length (filter (\<lambda>s. raw_type (raw_maneuver s) = ''turn'' \<or>
                                    raw_type (raw_maneuver s) = ''end of road'')
                         (firstLegSteps route)))
      in case typeOfIndex index of
           Fastest \<Rightarrow> turns
         | Safest \<Rightarrow> max 1 (turns - 1)
         | Comfortable \<Rightarrow> turns
         | Scenic \<Rightarrow> turns + 1)"
  by (cases "typeOfIndex index")
     (simp_all add: transformRoute_def analyzeRouteCharacteristics_def countCrossings_def Let_def)

theorem crossing_count_by_type_witness:
  "crossingCount (safety (transformRoute example_raw_route 3)) = 5 \<and>
   crossingCount (safety (transformRoute example_raw_route 1)) = 3 \<and>
   crossingCount (safety (transformRoute example_raw_route 0)) = 4"
  using crossing_count_by_type [of example_raw_route 3]
    crossing_count_by_type [of example_raw_route 1]
    crossing_count_by_type [of example_raw_route 0]
    count_example
  by (simp add: countCrossings_def typeOfIndex_def types_def)

text \<open>
  The claim as stated fails for the safest type: the example path has four such
  maneuvers, and at index 1 the crossing count reported is 3.
\<close>

theorem crossing_count_counterexample:
  "crossingCount (c_safety (analyzeRouteCharacteristics example_raw_route 1)) = 3 \<and>
   real (countCrossings (firstLegSteps example_raw_route)) = 4 \<and>
   crossingCount (c_safety (analyzeRouteCharacteristics example_raw_route 1))
     \<noteq> real (countCrossings (firstLegSteps example_raw_route))"
  by (simp add: analyzeRouteCharacteristics_def count_example typeOfIndex_def types_def)

subsection \<open>C6: at least three route types\<close>

text \<open>
  Claim C6, as amended. Whenever \<^verbatim>\<open>fetchRoutes\<close> runs with an origin and a destination,
  whatever the Routing Provider answers (a failure, no route, one route or more), the
  route set it stores contains the types fastest, safest and comfortable. When the
  provider yields one or two routes, the missing entries are made from the first result:
  the safest entry (index 1) has its duration times 1.10 and its distance times 1.05,
  the comfortable entry (index 2) its duration times 1.15 and its distance times 1.10;
  the distance factor is \<open>1 + 0.05 \<times> index\<close>, not the duration multiplier of the type.
\<close>

theorem three_types_guaranteed:
  assumes "origin s = Some orig" and "destination s = Some dest"
  shows "{Fastest, Safest, Comfortable}
           \<subseteq> route_type ` set (routes (fetchRoutes s mode response)) \<and>
    (response = Body (Some [raw]) \<longrightarrow>
       routes (fetchRoutes s mode response) =
         [transformRoute raw 0,
          synthesizeRoute (transformRoute raw 0) 1 (routeProfiles ! 1),
          synthesizeRoute (transformRoute raw 0) 2 (routeProfiles ! 2)] \<and>
       route_type (routes (fetchRoutes s mode response) ! 1) = Safest \<and>
       duration (routes (fetchRoutes s mode response) ! 1) = route_duration raw * 1.1 \<and>
       distance (routes (fetchRoutes s mode response) ! 1) = route_distance raw * 1.05 \<and>
       route_type (routes (fetchRoutes s mode response) ! 2) = Comfortable \<and>
       duration (routes (fetchRoutes s mode response) ! 2) = route_duration raw * 1.15 \<and>
       distance (routes (fetchRoutes s mode response) ! 2) = route_distance raw * 1.1) \<and>
    (response = Body (Some [raw, raw2]) \<longrightarrow>
       routes (fetchRoutes s mode response) =
         [transformRoute raw 0, transformRoute raw2 1,
          synthesizeRoute (transformRoute raw 0) 2 (routeProfiles ! 2)] \<and>
       route_type (routes (fetchRoutes s mode response) ! 2) = Comfortable \<and>
       duration (routes (fetchRoutes s mode response) ! 2) = route_duration raw * 1.15 \<and>
       distance (routes (fetchRoutes s mode response) ! 2) = route_distance raw * 1.1)"
proof (intro conjI impI)
  show "{Fastest, Safest, Comfortable}
           \<subseteq> route_type ` set (routes (fetchRoutes s mode response))"
  proof (cases "routesFromResponse response")
    case None
    have "route_type ` set (fallbackRoutes orig dest)
            = set (map route_type (fallbackRoutes orig dest))"
      by simp
    then show ?thesis
      unfolding fetchRoutes_routes [OF assms] None fallbackRoutes_types by simp
  next
    case (Some rs)
    then show ?thesis
      unfolding fetchRoutes_routes [OF assms] using routesFromResponse_types [OF Some] by simp
  qed
qed (simp_all add: fetchRoutes_routes [OF assms] routesFromResponse_def transformRoutes_one
       transformRoutes_two ensureThreeRoutes_one ensureThreeRoutes_two routeProfiles_nth)

theorem three_types_guaranteed_witness:
  "origin example_state = Some example_origin \<and>
   destination example_state = Some DEFAULT_DESTINATION \<and>
   {Fastest, Safest, Comfortable} \<subseteq>
     route_type ` set (routes (fetchRoutes example_state None (Body (Some [example_raw_route]))))
   \<and> map duration (routes (fetchRoutes example_state None (Body (Some [example_raw_route]))))
       = [720, 792, 828]
   \<and> map distance (routes (fetchRoutes example_state None (Body (Some [example_raw_route]))))
       = [1000, 1050, 1100]
   \<and> map duration (routes (fetchRoutes example_state None
                      (Body (Some [example_raw_route, example_raw_route]))))
       = [720, 720, 828]
   \<and> map distance (routes (fetchRoutes example_state None
                      (Body (Some [example_raw_route, example_raw_route]))))
       = [1000, 1000, 1100]
   \<and> {Fastest, Safest, Comfortable} \<subseteq>
     route_type ` set (routes (fetchRoutes example_state None FetchThrows))"
  using three_types_guaranteed [OF example_state_ends, of None
      "Body (Some [example_raw_route])" example_raw_route]
    three_types_guaranteed [OF example_state_ends, of None
      "Body (Some [example_raw_route, example_raw_route])" example_raw_route example_raw_route]
    three_types_guaranteed [OF example_state_ends, of None FetchThrows]
    example_state_ends
  by (simp add: example_raw_route_def synthesizeRoute_def routeProfiles_def)

text \<open>
  The claim as stated fails for the distance: with the example path as the only result,
  1000 m long, the safest entry has distance 1050 m, not 1000 \<times> 1.10.
\<close>

theorem distance_multiplier_counterexample:
  "distance (routes (fetchRoutes example_state None (Body (Some [example_raw_route]))) ! 1)
     = 1050 \<and>
   route_distance example_raw_route * 1.1 = 1100 \<and>
   distance (routes (fetchRoutes example_state None (Body (Some [example_raw_route]))) ! 1)
     \<noteq> route_distance example_raw_route * 1.1"
  by (simp add: fetchRoutes_routes [OF example_state_ends] routesFromResponse_def
      transformRoutes_one ensureThreeRoutes_one example_raw_route_def)

subsection \<open>C7: darkness favours the lit route\<close>

text \<open>In exact arithmetic the difference of the two scores is 95, whatever the route.\<close>

lemma dark_difference_exact:
  assumes "isDark tc"
    and "lightingLevel (safety r) = WellLit" and "nightFriendly r"
    and "r' = r\<lparr>nightFriendly := False, safety := (safety r)\<lparr>lightingLevel := Dark\<rparr>\<rparr>"
    and "map duration rl' = map duration rl"
  shows "score (scoreRoute rl p w m tc r) = score (scoreRoute rl' p w m tc r') + 95"
  unfolding score_scoreRoute using assms(1-4) avgDuration_cong [OF assms(5)] by simp

text \<open>
  Claim C7, as amended. For any route set, preference, weather snapshot and time context
  with \<^verbatim>\<open>isDark\<close> true, and any route with lighting level well-lit and night-friendly true
  whose rest-spot count and shade percent are at most \<open>10 ^ 12\<close> in absolute value (the
  routes the program makes have at most 6 rest spots and 80 percent shade), the score the
  engine computes for it, in double precision, strictly exceeds the score of the route
  that differs from it only in having lighting level dark and night-friendly false, all
  else equal (the durations of the candidate set are the same on both sides). Without a
  bound the increments of the darkness rule can be lost in the rounding of a large
  score.

  The proof does not read the outcome of the length-penalty comparison, which is the same
  for the two routes.
\<close>

theorem dark_monotone_double:
  assumes "isDark tc"
    and "lightingLevel (safety r) = WellLit" and "nightFriendly r"
    and "r' = r\<lparr>nightFriendly := False, safety := (safety r)\<lparr>lightingLevel := Dark\<rparr>\<rparr>"
    and "map duration rl' = map duration rl"
    and "\<bar>restSpotCount (comfort r)\<bar> \<le> 10 ^ 12" and "\<bar>shadePercent (comfort r)\<bar> \<le> 10 ^ 12"
  shows "scoreDouble rl p w m tc r > scoreDouble rl' p w m tc r'"
proof -
  have c': "comfort r' = comfort r" by (simp add: assms(4))
  from scoreDouble_close [OF assms(6,7), of rl p w m tc]
  have a: "\<bar>scoreDouble rl p w m tc r - sum_list (scoreIncrements fl rl p w m tc r)\<bar> \<le> 22 / 8" .
  from scoreDouble_close [of r' rl' p w m tc] assms(6,7) c'
  have b: "\<bar>scoreDouble rl' p w m tc r' - sum_list (scoreIncrements fl rl' p w m tc r')\<bar> \<le> 22 / 8"
    by simp
  from sum_increments_dark [OF assms(1-5), of fl p w m] a b show ?thesis by linarith
qed

theorem dark_monotone_double_witness:
  "isDark example_night \<and>
   lightingLevel (safety example_safest) = WellLit \<and>
   nightFriendly example_safest \<and>
   \<bar>restSpotCount (comfort example_safest)\<bar> \<le> 10 ^ 12 \<and>
   \<bar>shadePercent (comfort example_safest)\<bar> \<le> 10 ^ 12 \<and>
   scoreDouble example_routes Safe None 0 example_night example_safest
     > scoreDouble example_routes Safe None 0 example_night
         (example_safest\<lparr>nightFriendly := False,
            safety := (safety example_safest)\<lparr>lightingLevel := Dark\<rparr>\<rparr>)"
proof -
  have d: "isDark example_night" by (simp add: example_night_def)
  have b: "\<bar>restSpotCount (comfort example_safest)\<bar> \<le> 10 ^ 12"
    "\<bar>shadePercent (comfort example_safest)\<bar> \<le> 10 ^ 12"
    by (simp_all add: example_safest_fields)
  from dark_monotone_double [OF d example_safest_fields(5,3) refl refl b,
      of example_routes Safe None 0]
  show ?thesis using d b example_safest_fields(5,3) by simp
qed

text \<open>
  The claim as stated fails in double precision: in rain the route with \<open>2 ^ 60\<close> rest
  spots scores \<open>10 \<times> 2 ^ 60\<close>, where doubles are 2048 apart, and every later increment
  is rounded away; lit and night-friendly or not, the score is the same.
\<close>

theorem absorbed_darkness_counterexample:
  "isDark example_night \<and>
   lightingLevel (safety example_crowded) = WellLit \<and>
   nightFriendly example_crowded \<and>
   scoreDouble [example_crowded, example_crowded_unlit] Fast (Some example_rain) 0
     example_night example_crowded
   = scoreDouble [example_crowded, example_crowded_unlit] Fast (Some example_rain) 0
       example_night example_crowded_unlit \<and>
   \<not> scoreDouble [example_crowded, example_crowded_unlit] Fast (Some example_rain) 0
       example_night example_crowded
     > scoreDouble [example_crowded, example_crowded_unlit] Fast (Some example_rain) 0
         example_night example_crowded_unlit"
proof -
  have "isDark example_night" by (simp add: example_night_def)
  then show ?thesis
    by (simp add: example_crowded_scores example_crowded_fields)
qed

subsection \<open>C8: descending order, ties by input order\<close>

text \<open>
  Claim C8. The engine orders the candidates descending by total score and breaks ties
  by the order of the input: the sorted list is descending, the routes of any one score
  stand in it in their input order, and the route chosen is the first route of the input
  whose score is maximal, so that of two routes with equal score the earlier one is
  chosen.
\<close>

theorem recommendation_order:
  "sorted_wrt (\<lambda>a b. score a \<ge> score b) (sortedRoutes rl p w m tc) \<and>
   filter (\<lambda>x. score x = k) (sortedRoutes rl p w m tc)
     = filter (\<lambda>x. score x = k) (scoredRoutes rl p w m tc) \<and>
   (rl \<noteq> [] \<longrightarrow>
     (\<exists>i < length rl.
        getSmartRecommendation n rl p w m al tc =
          Some \<lparr>routeId = route_id (rl ! i), routeType = route_type (rl ! i),
                reason = recommendationReason n w m al tc
                           (reasons (scoreRoute rl p w m tc (rl ! i)))\<rparr> \<and>
        (\<forall>j < length rl. score (scoreRoute rl p w m tc (rl ! j))
                           \<le> score (scoreRoute rl p w m tc (rl ! i))) \<and>
        (\<forall>j < i. score (scoreRoute rl p w m tc (rl ! j))
                   < score (scoreRoute rl p w m tc (rl ! i)))))"
proof (intro conjI impI)
  show "sorted_wrt (\<lambda>a b. score a \<ge> score b) (sortedRoutes rl p w m tc)"
    unfolding sortedRoutes_def by (rule desc_sortBy)
  show "filter (\<lambda>x. score x = k) (sortedRoutes rl p w m tc)
     = filter (\<lambda>x. score x = k) (scoredRoutes rl p w m tc)"
    unfolding sortedRoutes_def by (rule sortBy_stable)
next
  assume ne: "rl \<noteq> []"
  from sortedRoutes_hd [OF ne, of p w m tc] obtain i where
    i: "i < length rl" "hd (sortedRoutes rl p w m tc) = scoreRoute rl p w m tc (rl ! i)"
    "\<forall>j < length rl. score (scoreRoute rl p w m tc (rl ! j))
                       \<le> score (scoreRoute rl p w m tc (rl ! i))"
    "\<forall>j < i. score (scoreRoute rl p w m tc (rl ! j))
               < score (scoreRoute rl p w m tc (rl ! i))"
    by blast
  show "\<exists>i < length rl.
        getSmartRecommendation n rl p w m al tc =
          Some \<lparr>routeId = route_id (rl ! i), routeType = route_type (rl ! i),
                reason = recommendationReason n w m al tc
                           (reasons (scoreRoute rl p w m tc (rl ! i)))\<rparr> \<and>
        (\<forall>j < length rl. score (scoreRoute rl p w m tc (rl ! j))
                           \<le> score (scoreRoute rl p w m tc (rl ! i))) \<and>
        (\<forall>j < i. score (scoreRoute rl p w m tc (rl ! j))
                   < score (scoreRoute rl p w m tc (rl ! i)))"
    using i ne by (intro exI [of _ i]) (simp add: getSmartRecommendation_eq)
qed

text \<open>Two routes with the same score: the first one is the one recommended.\<close>

theorem recommendation_order_witness:
  "example_tie \<noteq> [] \<and>
   score (scoreRoute example_tie Safe None 0 example_night (example_tie ! 0))
     = score (scoreRoute example_tie Safe None 0 example_night (example_tie ! 1)) \<and>
   route_id (example_tie ! 1) = ''route-9'' \<and>
   map_option routeId
     (getSmartRecommendation example_numToString example_tie Safe None 0 [] example_night)
     = Some ''route-1''"
proof -
  let ?sc = "\<lambda>r. score (scoreRoute example_tie Safe None 0 example_night r)"
  have nth: "example_tie ! 0 = example_safest"
    "example_tie ! 1 = example_safest\<lparr>route_id := ''route-9''\<rparr>"
    by (simp_all add: example_tie_def)
  have eq: "?sc (example_tie ! 0) = ?sc (example_tie ! 1)"
    unfolding nth by (simp add: score_scoreRoute)
  have ne: "example_tie \<noteq> []" and len: "length example_tie = 2"
    by (simp_all add: example_tie_def)
  from recommendation_order [of example_tie Safe None 0 example_night 0 example_numToString "[]"]
    ne
  obtain i where i: "i < length example_tie"
    "getSmartRecommendation example_numToString example_tie Safe None 0 [] example_night =
       Some \<lparr>routeId = route_id (example_tie ! i), routeType = route_type (example_tie ! i),
             reason = recommendationReason example_numToString None 0 [] example_night
                        (reasons (scoreRoute example_tie Safe None 0 example_night
                                    (example_tie ! i)))\<rparr>"
    "\<forall>j < i. ?sc (example_tie ! j) < ?sc (example_tie ! i)"
    by blast
  have "i = 0"
  proof (rule ccontr)
    assume "i \<noteq> 0"
    with i(1) len have "i = 1" by simp
    with i(3) have "?sc (example_tie ! 0) < ?sc (example_tie ! 1)" by simp
    with eq show False by simp
  qed
  with i(2) have "map_option routeId
     (getSmartRecommendation example_numToString example_tie Safe None 0 [] example_night)
     = Some (route_id (example_tie ! 0))"
    by simp
  with ne eq show ?thesis
    unfolding nth by (simp add: example_safest_fields)
qed

subsection \<open>C9: the mock snapshot\<close>

text \<open>
  Claim C9, as amended. When there is no credential, the snapshot \<^verbatim>\<open>fetchWeather\<close> stores
  is the mock one, with condition clear and temperature 72 degrees Fahrenheit, and the
  alert list it stores is empty; on that snapshot \<^verbatim>\<open>getRouteWeatherTags\<close> returns the one
  tag for great walking weather, the snapshot being clear and between 60 and 80 degrees.
\<close>

theorem no_credential_mock:
  "weather (fetchWeather [] now oneCall basic s la lo) = Some (mockWeather now) \<and>
   condition (current (mockWeather now)) = Clear \<and>
   temp (current (mockWeather now)) = 72 \<and>
   alerts (fetchWeather [] now oneCall basic s la lo) = [] \<and>
   getRouteWeatherTags (weather (fetchWeather [] now oneCall basic s la lo))
     = [emoji_sun @ '' Great walking weather'']"
  by (simp add: fetchWeather_def generateAlerts_mock tags_mock current_mock)

theorem no_credential_mock_witness:
  "weather (fetchWeather [] 0 Throws Throws initialWeatherState 0 0) = Some (mockWeather 0) \<and>
   condition (current (mockWeather 0)) = Clear \<and>
   temp (current (mockWeather 0)) = 72 \<and>
   alerts (fetchWeather [] 0 Throws Throws initialWeatherState 0 0) = [] \<and>
   getRouteWeatherTags (weather (fetchWeather [] 0 Throws Throws initialWeatherState 0 0))
     = [emoji_sun @ '' Great walking weather'']"
  by (rule no_credential_mock [of 0 Throws Throws initialWeatherState 0 0])

text \<open>The claim as stated fails in its last part: the tag list is not empty.\<close>

theorem no_credential_tags_counterexample:
  "getRouteWeatherTags (weather (fetchWeather [] 0 Throws Throws initialWeatherState 0 0))
     \<noteq> []"
  by (simp add: fetchWeather_def tags_mock)

subsection \<open>C10: the frame of clearAll\<close>

text \<open>
  Claim C10. \<^verbatim>\<open>clearAll\<close> sets origin, destination, selected route and error to null and
  the route list to the empty list, and changes nothing else of the route-selection
  state: the transport mode, and the loading flag, are those of the state before.
\<close>

theorem clearAll_frame:
  "origin (clearAll s) = None \<and> destination (clearAll s) = None \<and>
   routes (clearAll s) = [] \<and> selectedRoute (clearAll s) = None \<and>
   error (clearAll s) = None \<and>
   transportMode (clearAll s) = transportMode s \<and> isLoading (clearAll s) = isLoading s \<and>
   clearAll s = \<lparr>origin = None, destination = None, routes = [], selectedRoute = None,
                  transportMode = transportMode s, isLoading = isLoading s, error = None\<rparr>"
  by (simp add: clearAll_def)

theorem clearAll_frame_witness:
  "clearAll (example_state\<lparr>routes := example_routes, transportMode := Cycling\<rparr>) =
     \<lparr>origin = None, destination = None, routes = [], selectedRoute = None,
      transportMode = Cycling, isLoading = False, error = None\<rparr>"
  using clearAll_frame [of "example_state\<lparr>routes := example_routes, transportMode := Cycling\<rparr>"]
  by (simp add: example_state_def initialRouteState_def)

end
